theory Spec2Isabelle
  imports Main "HOL-Library.Word"
begin

unbundle bit_operations_syntax

section \<open>Shared constants and C string primitives\<close>

type_synonym byte = "8 word"

text \<open>
  The header \<^verbatim>\<open>cart_controller.h\<close> is not among the sources, so the three size constants
  it defines are parameters of the model. The comment at the declaration of
  \<^verbatim>\<open>fileTable\<close> in \<^verbatim>\<open>cart_driver.c\<close> gives the table as 64 x 1024.
  \<^verbatim>\<open>CART_FRAME_SIZE\<close> is assumed positive wherever a loop steps by it.
\<close>

record config =
  CART_MAX_CARTRIDGES :: nat
  CART_CARTRIDGE_SIZE :: nat
  CART_FRAME_SIZE :: nat

text \<open>\<^verbatim>\<open>typedef enum Flag { YES = 0, NO = 1 } Flag;\<close>\<close>

datatype Flag = YES | NO

text \<open>
  \<^verbatim>\<open>strncpy(dst, src, n)\<close> on an \<open>n\<close>-byte destination: the bytes of \<open>src\<close> up to its
  first NUL (at most \<open>n\<close>), the rest of the destination filled with NUL. A source list
  that ends before \<open>n\<close> bytes without a NUL is read as if a NUL followed it.
\<close>

definition strncpy :: "nat \<Rightarrow> byte list \<Rightarrow> byte list" where
  "strncpy n src = (let s = takeWhile (\<lambda>b. b \<noteq> 0) (take n src) in s @ replicate (n - length s) 0)"

text \<open>
  \<^verbatim>\<open>strlen\<close>: the number of bytes before the first NUL. On a buffer with no NUL the C
  function runs past the buffer; the model stops at its end.
\<close>

definition strlen :: "byte list \<Rightarrow> nat" where
  "strlen s = length (takeWhile (\<lambda>b. b \<noteq> 0) s)"

text \<open>\<^verbatim>\<open>for (i = 0; i < n; i++) if (P(a[i])) ...\<close>: the first index that satisfies \<open>P\<close>.\<close>

fun find_index :: "('a \<Rightarrow> bool) \<Rightarrow> 'a list \<Rightarrow> nat option" where
  "find_index P [] = None"
| "find_index P (x # xs) = (if P x then Some 0 else map_option Suc (find_index P xs))"

section \<open>Opcode codec (\<^verbatim>\<open>cart_driver.c\<close>)\<close>

type_synonym CartXferRegister = "64 word"

text \<open>
  The selectors of \<^verbatim>\<open>CartRegisters\<close> that \<^verbatim>\<open>extract_cart_opcode\<close> names: five cases and
  \<^verbatim>\<open>CART_REG_MAXVAL\<close>, which its \<^verbatim>\<open>default\<close> branch mentions.
\<close>

datatype CartRegisters =
  CART_REG_KY1 | CART_REG_KY2 | CART_REG_RT1 | CART_REG_CT1 | CART_REG_FM1 | CART_REG_MAXVAL

definition create_cart_opcode ::
  "64 word \<Rightarrow> 64 word \<Rightarrow> 64 word \<Rightarrow> 64 word \<Rightarrow> 64 word \<Rightarrow> 64 word \<Rightarrow> CartXferRegister" where
  "create_cart_opcode reg_KY1 reg_KY2 reg_RET reg_CART reg_FRAME reg_RESV =
     (let ky1 = push_bit 56 reg_KY1;
          ky2 = push_bit 48 reg_KY2;
          ret = push_bit 47 reg_RET;
          cart = push_bit 31 reg_CART;
          frame = push_bit 15 reg_FRAME;
          resv = reg_RESV
      in ky1 OR ky2 OR ret OR cart OR frame OR resv)"

text \<open>The \<^verbatim>\<open>default\<close> branch only logs: the register is returned as it came.\<close>

fun extract_cart_opcode :: "CartXferRegister \<Rightarrow> CartRegisters \<Rightarrow> 64 word" where
  "extract_cart_opcode resp CART_REG_KY1 = drop_bit 56 resp"
| "extract_cart_opcode resp CART_REG_KY2 = drop_bit 48 resp AND 0xFF"
| "extract_cart_opcode resp CART_REG_RT1 = drop_bit 47 resp AND 0x01"
| "extract_cart_opcode resp CART_REG_CT1 = drop_bit 31 resp AND 0xFFFF"
| "extract_cart_opcode resp CART_REG_FM1 = drop_bit 15 resp AND 0xFFFF"
| "extract_cart_opcode resp CART_REG_MAXVAL = resp"

section \<open>Frame cache (\<^verbatim>\<open>cart_cache.c\<close>)\<close>

text \<open>
  \<^verbatim>\<open>CartridgeIndex\<close> and \<^verbatim>\<open>CartFrameIndex\<close> are 16-bit unsigned (the tag packs each into
  16 bits); \<^verbatim>\<open>lru\<close> and \<^verbatim>\<open>lruCounter\<close> are C ints, modelled unbounded.
\<close>

record CacheTable =
  cachedFrame :: "byte list"
  cacheHandle :: "32 word"
  cache_cartIndex :: "16 word"
  cache_frameIndex :: "16 word"
  isUsed :: Flag
  lru :: int

text \<open>The globals of the cache; \<open>cacheMemory = None\<close> is the NULL pointer.\<close>

record cache =
  cacheMemory :: "CacheTable list option"
  last_cached_frame :: "byte list"
  cacheSize :: nat
  cacheInit :: Flag
  lruCounter :: int

definition CACHE_MAX_OPEN_FILES :: nat where
  "CACHE_MAX_OPEN_FILES = 128"

definition power_up_cache :: cache where
  "power_up_cache =
     \<lparr> cacheMemory = None, last_cached_frame = [], cacheSize = 0, cacheInit = NO, lruCounter = 0 \<rparr>"

definition create_cache_tag :: "16 word \<Rightarrow> 16 word \<Rightarrow> 32 word" where
  "create_cache_tag cart frame =
     (let theCart = (ucast cart :: 32 word);
          theFrame = (ucast frame :: 32 word);
          theCart = push_bit 16 theCart
      in theCart OR theFrame)"

definition set_cart_cache_size :: "cache \<Rightarrow> nat \<Rightarrow> int \<times> cache" where
  "set_cart_cache_size c max_frames =
     (if max_frames > CACHE_MAX_OPEN_FILES then (-1, c)
      else if max_frames = 0 then (-1, c)
      else (0, c\<lparr>cacheSize := max_frames\<rparr>))"

text \<open>The values that init, close and delete store into a slot they wipe.\<close>

definition empty_entry :: "config \<Rightarrow> CacheTable" where
  "empty_entry cfg =
     \<lparr> cachedFrame = strncpy (CART_FRAME_SIZE cfg) [], cacheHandle = 0,
       cache_cartIndex = 0, cache_frameIndex = 0, isUsed = NO, lru = -1 \<rparr>"

definition init_cart_cache :: "config \<Rightarrow> cache \<Rightarrow> int \<times> cache" where
  "init_cart_cache cfg c =
     (if cacheInit c = YES then (-1, c)
      else if cacheMemory c \<noteq> None then (-1, c)
      else (0, c\<lparr>cacheMemory := Some (replicate (cacheSize c) (empty_entry cfg)),
                 cacheInit := YES\<rparr>))"

text \<open>
  The slots that a loop \<^verbatim>\<open>for (i = 0; i < cacheSize; i++)\<close> visits. After
  \<open>init_cart_cache\<close> these are all of \<open>cacheMemory\<close>.
\<close>

definition entries :: "cache \<Rightarrow> CacheTable list" where
  "entries c = (case cacheMemory c of None \<Rightarrow> [] | Some m \<Rightarrow> take (cacheSize c) m)"

definition set_entry :: "cache \<Rightarrow> nat \<Rightarrow> CacheTable \<Rightarrow> cache" where
  "set_entry c i e = c\<lparr>cacheMemory := map_option (\<lambda>m. m[i := e]) (cacheMemory c)\<rparr>"

text \<open>
  \<open>get_cart_cache\<close> returns a pointer to the cached frame or NULL; the model returns the
  frame's bytes or \<open>None\<close>. The comparison is on \<open>cacheHandle\<close> alone.
\<close>

definition get_cart_cache :: "cache \<Rightarrow> 16 word \<Rightarrow> 16 word \<Rightarrow> byte list option \<times> cache" where
  "get_cart_cache c0 cart frm =
     (let c = c0\<lparr>lruCounter := lruCounter c0 + 1\<rparr>;
          temp = create_cache_tag cart frm
      in case find_index (\<lambda>e. cacheHandle e = temp) (entries c) of
           Some i \<Rightarrow> (Some (cachedFrame (entries c ! i)),
                      set_entry c i ((entries c ! i)\<lparr>lru := lruCounter c\<rparr>))
         | None \<Rightarrow> (None, c))"

definition delete_cart_cache ::
  "config \<Rightarrow> cache \<Rightarrow> 16 word \<Rightarrow> 16 word \<Rightarrow> byte list option \<times> cache" where
  "delete_cart_cache cfg c0 cart blk =
     (let c = c0\<lparr>lruCounter := lruCounter c0 + 1\<rparr>;
          temp = create_cache_tag cart blk
      in case find_index (\<lambda>e. cacheHandle e = temp) (entries c) of
           Some i \<Rightarrow>
             (let c1 = c\<lparr>last_cached_frame := cachedFrame (entries c ! i)\<rparr>
              in (Some (last_cached_frame c1), set_entry c1 i (empty_entry cfg)))
         | None \<Rightarrow> (None, c))"

text \<open>
  The victim scan of \<open>put_cart_cache\<close>: \<open>temp\<close> starts as slot 0 and is replaced by
  every slot with a strictly smaller \<open>lru\<close>.
\<close>

definition lru_victim :: "CacheTable list \<Rightarrow> CacheTable" where
  "lru_victim m = foldl (\<lambda>temp e. if lru e < lru temp then e else temp) (m ! 0) m"

lemma find_index_Some: "find_index P xs = Some i \<Longrightarrow> i < length xs \<and> P (xs ! i)"
  by (induction xs arbitrary: i) (auto split: if_splits)

lemma find_index_None: "find_index P xs = None \<longleftrightarrow> (\<forall>x \<in> set xs. \<not> P x)"
  by (induction xs) auto

lemma entries_set_entry:
  "i < length (entries c) \<Longrightarrow> entries (set_entry c i e) = (entries c)[i := e]"
  by (auto simp: entries_def set_entry_def take_update_swap split: option.splits)

lemma entries_upd [simp]:
  "entries (c\<lparr>lruCounter := x\<rparr>) = entries c"
  "entries (c\<lparr>last_cached_frame := y\<rparr>) = entries c"
  by (simp_all add: entries_def split: option.splits)

lemma delete_frees:
  assumes "delete_cart_cache cfg c cart blk = (Some f, c')"
  shows "find_index (\<lambda>e. isUsed e = NO) (entries c') \<noteq> None"
proof -
  let ?d = "c\<lparr>lruCounter := lruCounter c + 1\<rparr>"
  from assms obtain i
    where i: "find_index (\<lambda>e. cacheHandle e = create_cache_tag cart blk) (entries c) = Some i"
      and c': "c' = set_entry (?d\<lparr>last_cached_frame := cachedFrame (entries c ! i)\<rparr>) i
                      (empty_entry cfg)"
    by (auto simp: delete_cart_cache_def Let_def split: option.splits)
  from i have len: "i < length (entries c)" by (auto dest: find_index_Some)
  have "entries c' = (entries c)[i := empty_entry cfg]"
    unfolding c' using len by (simp add: entries_set_entry)
  moreover have "isUsed (empty_entry cfg) = NO" by (simp add: empty_entry_def)
  ultimately have "\<exists>x \<in> set (entries c'). isUsed x = NO"
    using len by (metis set_update_memI)
  then show ?thesis by (simp add: find_index_None)
qed

text \<open>
  The \<^verbatim>\<open>search:\<close> loop of \<open>put_cart_cache\<close>: place the frame in the first unused slot;
  with none, delete the victim's address and search again.
\<close>

function put_search ::
  "config \<Rightarrow> cache \<Rightarrow> 32 word \<Rightarrow> 16 word \<Rightarrow> 16 word \<Rightarrow> byte list \<Rightarrow> int \<times> cache" where
  "put_search cfg c tag cart frm buf =
     (case find_index (\<lambda>e. isUsed e = NO) (entries c) of
        Some i \<Rightarrow>
          (0, set_entry c i
                \<lparr> cachedFrame = strncpy (CART_FRAME_SIZE cfg) buf, cacheHandle = tag,
                  cache_cartIndex = cart, cache_frameIndex = frm, isUsed = YES,
                  lru = lruCounter c \<rparr>)
      | None \<Rightarrow>
          if cacheSize c = 0 then (0, c)
          else (let temp = lru_victim (entries c)
                in case delete_cart_cache cfg c (cache_cartIndex temp) (cache_frameIndex temp) of
                     (None, c') \<Rightarrow> (-1, c')
                   | (Some resp, c') \<Rightarrow> put_search cfg c' tag cart frm buf))"
  by pat_completeness auto
termination
  apply (relation "measure (\<lambda>(cfg, c, tag, cart, frm, buf).
            if find_index (\<lambda>e. isUsed e = NO) (entries c) = None then 1 else 0)")
   apply simp
  apply (auto dest: delete_frees [OF sym])
  done

declare put_search.simps [simp del]

definition put_cart_cache ::
  "config \<Rightarrow> cache \<Rightarrow> 16 word \<Rightarrow> 16 word \<Rightarrow> byte list \<Rightarrow> int \<times> cache" where
  "put_cart_cache cfg c0 cart frm buf =
     (let c = c0\<lparr>lruCounter := lruCounter c0 + 1\<rparr>;
          tag = create_cache_tag cart frm
      in put_search cfg c tag cart frm buf)"

text \<open>A cache after \<open>set_cart_cache_size n\<close> and \<open>init_cart_cache\<close> from power-up.\<close>

definition fresh_cache :: "config \<Rightarrow> nat \<Rightarrow> cache" where
  "fresh_cache cfg n = snd (init_cart_cache cfg (snd (set_cart_cache_size power_up_cache n)))"

text \<open>A small configuration for running the code: 2 cartridges of 2 frames of 4 bytes.\<close>

definition small_cfg :: config where
  "small_cfg = \<lparr> CART_MAX_CARTRIDGES = 2, CART_CARTRIDGE_SIZE = 2, CART_FRAME_SIZE = 4 \<rparr>"

section \<open>File store (\<^verbatim>\<open>cart_driver.c\<close>)\<close>

text \<open>
  One entry of the file table. \<open>filename\<close> is the C string held in the \<^verbatim>\<open>char\<close> array,
  \<open>filehandle\<close> an \<^verbatim>\<open>int16_t\<close>, position and length \<^verbatim>\<open>uint32_t\<close>.
\<close>

record FileSystem =
  filename :: string
  filehandle :: int
  fileposition :: "32 word"
  filelength :: "32 word"
  cartIndex :: "16 word"
  frameIndex :: "16 word"
  openfile :: Flag
  incart :: Flag

text \<open>One slot of the allocation table \<^verbatim>\<open>fileTable[cart][frame]\<close>.\<close>

record FileTable =
  tbl_filehandle :: int
  isused :: Flag

text \<open>
  The driver reaches the device only through \<^verbatim>\<open>client_cart_bus_request(reg, buf)\<close>. The
  driver is modelled over any such transport: a function from the request register, the
  frame buffer and the state behind the connection to the response register, the buffer
  afterwards and the new state. A NULL buffer is the empty list.
\<close>

type_synonym 'd bus = "CartXferRegister \<Rightarrow> byte list \<Rightarrow> 'd \<Rightarrow> CartXferRegister \<times> byte list \<times> 'd"

text \<open>
  The globals of the driver together with the cache and the state behind the transport.
  \<^verbatim>\<open>numFiles\<close> is the length of \<open>fileSystem\<close>; the increment that \<open>cart_poweron\<close>
  makes before its test \<^verbatim>\<open>++numFiles != 1\<close> therefore shows only when the table is built.
  \<open>fileTable\<close> is indexed by cartridge and frame; every scan bounds the indices by the sizes
  of the configuration.
\<close>

record 'd driver =
  fileSystem :: "FileSystem list"
  fileTable :: "nat \<Rightarrow> nat \<Rightarrow> FileTable"
  cache_state :: cache
  device :: 'd

text \<open>
  Modelled from the spec: the opcode numbers of \<^verbatim>\<open>cart_controller.h\<close>, which is not among
  the sources, numbered in the order in which the specification lists the commands (INIT,
  ZERO-CARTRIDGE, LOAD-CARTRIDGE, READ-FRAME, WRITE-FRAME, POWER-OFF). Only their being
  distinct matters below.
\<close>

definition CART_OP_INITMS :: "64 word" where "CART_OP_INITMS = 0"
definition CART_OP_BZERO :: "64 word" where "CART_OP_BZERO = 1"
definition CART_OP_LDCART :: "64 word" where "CART_OP_LDCART = 2"
definition CART_OP_RDFRME :: "64 word" where "CART_OP_RDFRME = 3"
definition CART_OP_WRFRME :: "64 word" where "CART_OP_WRFRME = 4"
definition CART_OP_POWOFF :: "64 word" where "CART_OP_POWOFF = 5"

text \<open>The values that \<open>cart_poweron\<close> and \<open>allocateNewFile\<close> store into a file entry.\<close>

definition closed_file :: FileSystem where
  "closed_file = \<lparr> filename = [], filehandle = -1, fileposition = 0, filelength = 0,
       cartIndex = 0, frameIndex = 0, openfile = NO, incart = NO \<rparr>"

definition unused_slot :: FileTable where
  "unused_slot = \<lparr> tbl_filehandle = -1, isused = NO \<rparr>"

definition load_this_cart :: "'d bus \<Rightarrow> 16 word \<Rightarrow> 'd \<Rightarrow> int \<times> 'd" where
  "load_this_cart bus cart d =
     (case bus (create_cart_opcode CART_OP_LDCART 0 0 (ucast cart) 0 0) [] d of
        (resp, b, d') \<Rightarrow>
          (if extract_cart_opcode resp CART_REG_RT1 \<noteq> 0 then -1 else 0, d'))"

text \<open>The loop of \<open>cart_poweron\<close> that loads and zeroes every cartridge.\<close>

fun zero_cartridges :: "'d bus \<Rightarrow> nat list \<Rightarrow> 'd \<Rightarrow> int \<times> 'd" where
  "zero_cartridges bus [] d = (0, d)"
| "zero_cartridges bus (i # is) d =
     (case bus (create_cart_opcode CART_OP_LDCART 0 0 (of_nat i) 0 0) [] d of
        (resp, b, d1) \<Rightarrow>
          if extract_cart_opcode resp CART_REG_RT1 \<noteq> 0 then (-1, d1)
          else (case bus (create_cart_opcode CART_OP_BZERO 0 0 0 0 0) [] d1 of
                  (resp2, b2, d2) \<Rightarrow>
                    if extract_cart_opcode resp2 CART_REG_RT1 \<noteq> 0 then (-1, d2)
                    else zero_cartridges bus is d2))"

definition cart_poweron :: "config \<Rightarrow> 'd bus \<Rightarrow> 'd driver \<Rightarrow> int \<times> 'd driver" where
  "cart_poweron cfg bus st =
     (case init_cart_cache cfg (cache_state st) of
        (cacheResp, c) \<Rightarrow>
          if cacheResp \<noteq> 0 then (-1, st\<lparr>cache_state := c\<rparr>)
          else if length (fileSystem st) + 1 \<noteq> 1 then (-1, st\<lparr>cache_state := c\<rparr>)
          else
            (let st1 = st\<lparr>cache_state := c, fileSystem := [closed_file],
                           fileTable := (\<lambda>i j. unused_slot)\<rparr>
             in case bus (create_cart_opcode CART_OP_INITMS 0 0 0 0 0) [] (device st1) of
                  (resp, b, d1) \<Rightarrow>
                    if extract_cart_opcode resp CART_REG_RT1 \<noteq> 0 then (-1, st1\<lparr>device := d1\<rparr>)
                    else (case zero_cartridges bus [0..<CART_MAX_CARTRIDGES cfg] d1 of
                            (r, d2) \<Rightarrow> (r, st1\<lparr>device := d2\<rparr>))))"

text \<open>
  The operations index \<^verbatim>\<open>fileSystem[fd]\<close> without a bounds check. A handle outside the
  array is undefined behaviour in C: the operations that take a handle return \<open>None\<close> for it.
\<close>

definition in_range :: "'d driver \<Rightarrow> int \<Rightarrow> bool" where
  "in_range st fd \<longleftrightarrow> 0 \<le> fd \<and> nat fd < length (fileSystem st)"

definition allocateNewFile :: "'d driver \<Rightarrow> 'd driver" where
  "allocateNewFile st = st\<lparr>fileSystem := fileSystem st @ [closed_file]\<rparr>"

text \<open>
  The scan at the label \<^verbatim>\<open>check_file_system\<close> of \<open>cart_open\<close>: slot by slot, first the
  comparison of the path with the slot's file name (\<^verbatim>\<open>strncmp\<close> over the path and its NUL,
  that is equality of the two strings), then the test whether the slot is closed. The
  result is the value returned with the new contents of the claimed slot, or \<open>None\<close> when
  the scan ends without a \<^verbatim>\<open>return\<close>.
\<close>

fun check_file_system :: "string \<Rightarrow> nat \<Rightarrow> FileSystem list \<Rightarrow> (int \<times> FileSystem option) option" where
  "check_file_system path i [] = None"
| "check_file_system path i (f # fs) =
     (if path = filename f then Some (-1, None)
      else if openfile f = NO then
        Some (int i, Some (f\<lparr>filename := path, filehandle := int i, fileposition := 0,
                             filelength := 0, openfile := YES, cartIndex := 0, frameIndex := 0\<rparr>))
      else check_file_system path (Suc i) fs)"

definition open_scan :: "string \<Rightarrow> 'd driver \<Rightarrow> (int \<times> 'd driver) option" where
  "open_scan path st =
     (case check_file_system path 0 (fileSystem st) of
        None \<Rightarrow> None
      | Some (r, None) \<Rightarrow> Some (r, st)
      | Some (r, Some f) \<Rightarrow> Some (r, st\<lparr>fileSystem := (fileSystem st)[nat r := f]\<rparr>))"

lemma check_file_system_closed:
  "openfile f = NO \<Longrightarrow> check_file_system path i (fs @ [f]) \<noteq> None"
  by (induction fs arbitrary: i) auto

lemma open_scan_allocate: "open_scan path (allocateNewFile st) \<noteq> None"
proof -
  have "check_file_system path 0 (fileSystem st @ [closed_file]) \<noteq> None"
    by (rule check_file_system_closed) (simp add: closed_file_def)
  then show ?thesis
    by (auto simp: open_scan_def allocateNewFile_def split: option.splits)
qed

text \<open>Without a \<^verbatim>\<open>return\<close> the table grows by one entry and the scan starts again.\<close>

function open_loop :: "string \<Rightarrow> 'd driver \<Rightarrow> int \<times> 'd driver" where
  "open_loop path st =
     (case open_scan path st of
        Some res \<Rightarrow> res
      | None \<Rightarrow> open_loop path (allocateNewFile st))"
  by pat_completeness auto
termination
  apply (relation "measure (\<lambda>(path, st). if open_scan path st = None then 1 else 0)")
   apply simp
  apply (simp add: open_scan_allocate)
  done

declare open_loop.simps [simp del]

text \<open>\<open>path = None\<close> is the NULL pointer.\<close>

definition cart_open :: "'d driver \<Rightarrow> string option \<Rightarrow> int \<times> 'd driver" where
  "cart_open st path = (case path of None \<Rightarrow> (-1, st) | Some p \<Rightarrow> open_loop p st)"

definition cart_close :: "'d driver \<Rightarrow> int \<Rightarrow> (int \<times> 'd driver) option" where
  "cart_close st fd =
     (if \<not> in_range st fd then None
      else let f = fileSystem st ! nat fd in
        if filehandle f \<ge> 0 \<and> openfile f = YES
        then Some (0, st\<lparr>fileSystem := (fileSystem st)[nat fd :=
                     f\<lparr>filename := [], filehandle := -1, fileposition := 0, filelength := 0,
                       openfile := NO, cartIndex := 0, frameIndex := 0\<rparr>]\<rparr>)
        else Some (-1, st))"

definition cart_seek :: "'d driver \<Rightarrow> int \<Rightarrow> 32 word \<Rightarrow> (int \<times> 'd driver) option" where
  "cart_seek st fd loc =
     (if \<not> in_range st fd then None
      else let f = fileSystem st ! nat fd in
        if loc > filelength f then Some (-1, st)
        else Some (0, st\<lparr>fileSystem := (fileSystem st)[nat fd := f\<lparr>fileposition := loc\<rparr>]\<rparr>))"

subsection \<open>Allocation table scans\<close>

text \<open>
  The order of \<^verbatim>\<open>for (i = 0; i < CART_MAX_CARTRIDGES; i++) for (j = 0; j < CART_CARTRIDGE_SIZE; j++)\<close>.
\<close>

definition slots :: "config \<Rightarrow> (nat \<times> nat) list" where
  "slots cfg = concat (map (\<lambda>i. map (\<lambda>j. (i, j)) [0..<CART_CARTRIDGE_SIZE cfg])
                           [0..<CART_MAX_CARTRIDGES cfg])"

text \<open>
  The scan for the first unused slot; \<^verbatim>\<open>the_cart\<close> and \<^verbatim>\<open>the_frame\<close> keep their values
  when there is none.
\<close>

definition search_file_table ::
  "config \<Rightarrow> (nat \<Rightarrow> nat \<Rightarrow> FileTable) \<Rightarrow> 16 word \<times> 16 word \<Rightarrow> 16 word \<times> 16 word" where
  "search_file_table cfg tbl cur =
     (case List.find (\<lambda>(i, j). isused (tbl i j) = NO) (slots cfg) of
        Some (i, j) \<Rightarrow> (of_nat i, of_nat j)
      | None \<Rightarrow> cur)"

definition free_slots :: "config \<Rightarrow> (nat \<Rightarrow> nat \<Rightarrow> FileTable) \<Rightarrow> nat" where
  "free_slots cfg tbl = length (filter (\<lambda>(i, j). isused (tbl i j) = NO) (slots cfg))"

text \<open>
  \<^verbatim>\<open>ceil((double)length / (double)CART_FRAME_SIZE)\<close>; both operands are below \<open>2^32\<close>, so the
  floating-point quotient rounds up to this integer (for a positive frame size).
\<close>

definition ceil_div :: "nat \<Rightarrow> nat \<Rightarrow> nat" where
  "ceil_div a b = (a + b - 1) div b"

definition check_table_space :: "config \<Rightarrow> 'd driver \<Rightarrow> int \<Rightarrow> int \<Rightarrow> int" where
  "check_table_space cfg st fd count =
     (let f = fileSystem st ! nat fd in
      if filelength f \<ge> fileposition f + word_of_int count then 0
      else
        (let length = filelength f + word_of_int count;
             new_frames_needed = ceil_div (unat length) (CART_FRAME_SIZE cfg);
             counter = free_slots cfg (fileTable st)
         in if new_frames_needed > counter then -1 else 0))"

text \<open>The slots of a handle in scan order: the array that \<open>get_file_pieces\<close> builds.\<close>

definition file_slots :: "config \<Rightarrow> (nat \<Rightarrow> nat \<Rightarrow> FileTable) \<Rightarrow> int \<Rightarrow> (nat \<times> nat) list" where
  "file_slots cfg tbl fd =
     filter (\<lambda>(i, j). tbl_filehandle (tbl i j) = fd \<and> isused (tbl i j) = YES) (slots cfg)"

definition get_num_pieces :: "config \<Rightarrow> 'd driver \<Rightarrow> int \<Rightarrow> int" where
  "get_num_pieces cfg st fd =
     (if filelength (fileSystem st ! nat fd) < 1 then -1
      else int (length (file_slots cfg (fileTable st) fd)))"

definition get_file_pieces :: "config \<Rightarrow> 'd driver \<Rightarrow> int \<Rightarrow> (16 word \<times> 16 word) list option" where
  "get_file_pieces cfg st fd =
     (if filelength (fileSystem st ! nat fd) < 1 then None
      else Some (map (\<lambda>(i, j). (of_nat i, of_nat j)) (file_slots cfg (fileTable st) fd)))"

text \<open>
  \<^verbatim>\<open>tempFile[k]\<close>. The array is \<^verbatim>\<open>calloc\<close>'ed; an index past its end reads as the zeroed
  entry in the model (in C the read is out of bounds).
\<close>

definition piece :: "(16 word \<times> 16 word) list \<Rightarrow> nat \<Rightarrow> 16 word \<times> 16 word" where
  "piece tempFile k = (if k < length tempFile then tempFile ! k else (0, 0))"

text \<open>
  \<^verbatim>\<open>memcpy(&dst[off], src, length src)\<close>; the model drops what would land past the end of
  \<open>dst\<close>.
\<close>

definition memcpy :: "byte list \<Rightarrow> nat \<Rightarrow> byte list \<Rightarrow> byte list" where
  "memcpy dst off src = take (length dst) (take off dst @ src @ drop (off + length src) dst)"

definition set_slot ::
  "(nat \<Rightarrow> nat \<Rightarrow> FileTable) \<Rightarrow> 16 word \<Rightarrow> 16 word \<Rightarrow> FileTable \<Rightarrow> nat \<Rightarrow> nat \<Rightarrow> FileTable" where
  "set_slot tbl the_cart the_frame e =
     tbl(unat the_cart := (tbl (unat the_cart))(unat the_frame := e))"

subsection \<open>cart_read\<close>

text \<open>
  The loop at \<^verbatim>\<open>read_file_frame:\<close>. \<open>Inl\<close> is the \<^verbatim>\<open>return (-1)\<close> after a failed device
  read. On a cache hit \<^verbatim>\<open>the_cart\<close> and \<^verbatim>\<open>the_frame\<close> are not advanced.
\<close>

fun read_file_frame ::
  "config \<Rightarrow> 'd bus \<Rightarrow> (16 word \<times> 16 word) list \<Rightarrow> nat \<Rightarrow> nat \<Rightarrow> 16 word \<Rightarrow> 16 word \<Rightarrow>
   byte list \<Rightarrow> byte list \<Rightarrow> cache \<Rightarrow> 'd \<Rightarrow> (cache \<times> 'd) + (byte list \<times> cache \<times> 'd)" where
  "read_file_frame cfg bus tempFile 0 iteration the_cart the_frame cart_buffer local_file_buffer c d =
     Inr (local_file_buffer, c, d)"
| "read_file_frame cfg bus tempFile (Suc file_frames) iteration the_cart the_frame cart_buffer
       local_file_buffer c d =
     (case get_cart_cache c the_cart the_frame of
        (Some cache_buffer, c1) \<Rightarrow>
          (let length = strlen cache_buffer;
               lfb = memcpy local_file_buffer (iteration * CART_FRAME_SIZE cfg)
                       (take length cache_buffer)
           in read_file_frame cfg bus tempFile file_frames (iteration + 1) the_cart the_frame
                cart_buffer lfb c1 d)
      | (None, c1) \<Rightarrow>
          (let p = piece tempFile iteration;
               d1 = (if the_cart \<noteq> fst p then snd (load_this_cart bus (fst p) d) else d);
               the_cart1 = fst p;
               the_frame1 = snd p
           in case bus (create_cart_opcode CART_OP_RDFRME 0 0 0 (ucast the_frame1) 0) cart_buffer d1 of
                (resp, cart_buffer1, d2) \<Rightarrow>
                  if extract_cart_opcode resp CART_REG_RT1 \<noteq> 0 then Inl (c1, d2)
                  else
                    (let length = strlen cart_buffer1;
                         lfb = memcpy local_file_buffer (iteration * CART_FRAME_SIZE cfg)
                                 (take length cart_buffer1)
                     in read_file_frame cfg bus tempFile file_frames (iteration + 1) the_cart1
                          the_frame1 cart_buffer1 lfb c1 d2)))"

text \<open>
  \<open>cart_read\<close> has two uninitialised locals, \<^verbatim>\<open>cart_buffer\<close> and the variable-length
  \<^verbatim>\<open>local_file_buffer\<close>. Their initial contents are the argument \<open>stack\<close>, cut or
  padded to the size of each array. The second component of the result holds the bytes
  stored into the caller's \<^verbatim>\<open>buf\<close>.
\<close>

definition fit :: "nat \<Rightarrow> byte list \<Rightarrow> byte list" where
  "fit n xs = take n (xs @ replicate n 0)"

definition cart_read ::
  "config \<Rightarrow> 'd bus \<Rightarrow> byte list \<times> byte list \<Rightarrow> 'd driver \<Rightarrow> int \<Rightarrow> int \<Rightarrow>
   (int \<times> byte list \<times> 'd driver) option" where
  "cart_read cfg bus stack st fd count =
     (if \<not> in_range st fd then None
      else Some
        (let f = fileSystem st ! nat fd in
         if count < 0 then (-1, [], st)
         else if filehandle f < 0 \<or> openfile f = NO then (-1, [], st)
         else if \<not> (0 < length (fileSystem st) \<and> filehandle f = fd) then (-1, [], st)
         else
           (case get_file_pieces cfg st fd of
              None \<Rightarrow> (-1, [], st)
            | Some tempFile \<Rightarrow>
                (let file_occurrences = nat (get_num_pieces cfg st fd);
                     the_cart = fst (piece tempFile 0);
                     d1 = snd (load_this_cart bus the_cart (device st));
                     the_frame = snd (piece tempFile 0);
                     cart_buffer = fit (CART_FRAME_SIZE cfg) (fst stack);
                     local_file_buffer = fit (unat (filelength f)) (snd stack)
                 in case read_file_frame cfg bus tempFile file_occurrences 0 the_cart the_frame
                           cart_buffer local_file_buffer (cache_state st) d1 of
                      Inl (c, d) \<Rightarrow> (-1, [], st\<lparr>cache_state := c, device := d\<rparr>)
                    | Inr (lfb, c, d) \<Rightarrow>
                        (let st1 = st\<lparr>cache_state := c, device := d\<rparr>;
                             return_count = filelength f - fileposition f
                         in if word_of_int count \<le> filelength f - fileposition f then
                              (count, take (nat count) (drop (unat (fileposition f)) lfb),
                               st1\<lparr>fileSystem := (fileSystem st)[nat fd :=
                                      f\<lparr>fileposition := fileposition f + word_of_int count\<rparr>]\<rparr>)
                            else if filelength f - fileposition f = 0 then (-1, [], st1)
                            else
                              (sint return_count,
                               take (unat return_count) (drop (unat (fileposition f)) lfb),
                               st1\<lparr>fileSystem := (fileSystem st)[nat fd :=
                                      f\<lparr>fileposition := filelength f\<rparr>]\<rparr>))))))"

subsection \<open>cart_write\<close>

text \<open>
  One pass through the \<^verbatim>\<open>while (counter > 0)\<close> loop of the first write, steps (1) to (6).
  \<open>Inl\<close> is a \<^verbatim>\<open>return\<close> from inside the loop, \<open>Inr\<close> carries the loop variables on.
\<close>

definition first_write_body ::
  "config \<Rightarrow> 'd bus \<Rightarrow> int \<Rightarrow> byte list \<Rightarrow> int \<Rightarrow> nat \<Rightarrow> nat \<Rightarrow> byte list \<Rightarrow> 16 word \<Rightarrow> 16 word \<Rightarrow>
   'd driver \<Rightarrow> (int \<times> 'd driver) + (nat \<times> byte list \<times> 'd driver)" where
  "first_write_body cfg bus fd buf count counter iteration cart_buffer the_cart the_frame st =
     (let n = (if counter \<le> CART_FRAME_SIZE cfg then counter else CART_FRAME_SIZE cfg);
          cart_buffer1 = memcpy cart_buffer 0 (take n (drop (iteration * CART_FRAME_SIZE cfg) buf));
          counter1 = counter - n;
          d1 = snd (load_this_cart bus the_cart (device st))
      in case bus (create_cart_opcode CART_OP_WRFRME 0 0 0 (ucast the_frame) 0) cart_buffer1 d1 of
           (resp, cart_buffer2, d2) \<Rightarrow>
             if extract_cart_opcode resp CART_REG_RT1 \<noteq> 0 then Inl (-1, st\<lparr>device := d2\<rparr>)
             else
               (case put_cart_cache cfg (cache_state st) the_cart the_frame cart_buffer2 of
                  (cacheResp, c) \<Rightarrow>
                    (let st2 = st\<lparr>cache_state := c, device := d2\<rparr>;
                         f = fileSystem st ! nat fd;
                         used = \<lparr> tbl_filehandle = fd, isused = YES \<rparr>
                     in if cacheResp \<noteq> 0 then Inl (-1, st2)
                        else if iteration = 0 then
                          Inr (counter1, cart_buffer2,
                               st2\<lparr>fileSystem := (fileSystem st)[nat fd :=
                                      f\<lparr>cartIndex := the_cart, frameIndex := the_frame, incart := YES,
                                        fileposition := word_of_int count,
                                        filelength := word_of_int count\<rparr>],
                                    fileTable := set_slot (fileTable st) the_cart the_frame used\<rparr>)
                        else if the_cart = 0 \<or> the_frame = 0 then Inl (-1, st2)
                        else if unat the_cart = CART_MAX_CARTRIDGES cfg
                                \<or> unat the_frame = CART_CARTRIDGE_SIZE cfg then Inl (-1, st2)
                        else
                          Inr (counter1, cart_buffer2,
                               st2\<lparr>fileSystem := (fileSystem st)[nat fd :=
                                      f\<lparr>fileposition := word_of_int count,
                                        filelength := word_of_int count\<rparr>],
                                    fileTable := set_slot (fileTable st) the_cart the_frame used\<rparr>))))"

lemma first_write_body_decreases:
  "first_write_body cfg bus fd buf count counter iteration cart_buffer the_cart the_frame st
     = Inr (counter', cb', st') \<Longrightarrow> 0 < counter \<Longrightarrow> 0 < CART_FRAME_SIZE cfg \<Longrightarrow> counter' < counter"
  by (auto simp: first_write_body_def Let_def split: prod.splits if_splits)

text \<open>
  The scan at \<^verbatim>\<open>search_file_table:\<close> followed by the loop; every pass ends with
  \<^verbatim>\<open>goto search_file_table\<close>. The result is \<open>Some r\<close> for a \<^verbatim>\<open>return r\<close> inside the loop.
\<close>

function first_write_loop ::
  "config \<Rightarrow> 'd bus \<Rightarrow> int \<Rightarrow> byte list \<Rightarrow> int \<Rightarrow> nat \<Rightarrow> nat \<Rightarrow> byte list \<Rightarrow> 16 word \<times> 16 word \<Rightarrow>
   'd driver \<Rightarrow> int option \<times> 'd driver" where
  "first_write_loop cfg bus fd buf count counter iteration cart_buffer cur st =
     (case search_file_table cfg (fileTable st) cur of
        (the_cart, the_frame) \<Rightarrow>
          if 0 < counter \<and> 0 < CART_FRAME_SIZE cfg then
            (case first_write_body cfg bus fd buf count counter iteration cart_buffer
                    the_cart the_frame st of
               Inl r \<Rightarrow> (Some (fst r), snd r)
             | Inr (counter', cart_buffer', st') \<Rightarrow>
                 first_write_loop cfg bus fd buf count counter' (iteration + 1) cart_buffer'
                   (the_cart, the_frame) st')
          else (None, st))"
  by pat_completeness auto
termination
  apply (relation "measure (\<lambda>(cfg, bus, fd, buf, count, counter, iteration, cart_buffer, cur, st). counter)")
   apply simp
  apply (auto elim: first_write_body_decreases)
  done

declare first_write_loop.simps [simp del]

text \<open>
  The loop of a subsequent write that reads the file back frame by frame and marks each
  slot unused.
\<close>

function read_back_loop ::
  "config \<Rightarrow> 'd bus \<Rightarrow> (16 word \<times> 16 word) list \<Rightarrow> nat \<Rightarrow> nat \<Rightarrow> byte list \<Rightarrow> 16 word \<times> 16 word \<Rightarrow>
   byte list \<Rightarrow> 'd driver \<Rightarrow>
   (int \<times> 'd driver) + (byte list \<times> (16 word \<times> 16 word) \<times> byte list \<times> 'd driver)" where
  "read_back_loop cfg bus tempFile counter iteration cart_buffer cur local_file_buffer st =
     (if 0 < counter \<and> 0 < CART_FRAME_SIZE cfg then
        (let p = piece tempFile iteration;
             d1 = (if fst p \<noteq> fst cur then snd (load_this_cart bus (fst p) (device st))
                   else device st);
             the_cart = fst p;
             the_frame = snd p
         in case bus (create_cart_opcode CART_OP_RDFRME 0 0 0 (ucast the_frame) 0) cart_buffer d1 of
              (resp, cart_buffer1, d2) \<Rightarrow>
                if extract_cart_opcode resp CART_REG_RT1 \<noteq> 0 then Inl (-1, st\<lparr>device := d2\<rparr>)
                else
                  (let tbl = fileTable st;
                       st1 = st\<lparr>device := d2,
                                fileTable := set_slot tbl the_cart the_frame
                                   ((tbl (unat the_cart) (unat the_frame))\<lparr>isused := NO\<rparr>)\<rparr>;
                       n = (if counter \<ge> CART_FRAME_SIZE cfg then CART_FRAME_SIZE cfg else counter);
                       lfb = memcpy local_file_buffer (iteration * CART_FRAME_SIZE cfg)
                               (take n cart_buffer1)
                   in read_back_loop cfg bus tempFile (counter - CART_FRAME_SIZE cfg) (iteration + 1)
                        cart_buffer1 (the_cart, the_frame) lfb st1))
      else Inr (cart_buffer, cur, local_file_buffer, st))"
  by pat_completeness auto
termination
  by (relation "measure (\<lambda>(cfg, bus, tempFile, counter, iteration, cart_buffer, cur, lfb, st). counter)")
     auto

declare read_back_loop.simps [simp del]

text \<open>One pass through the loop at \<^verbatim>\<open>cart_write_back:\<close>, steps (1) to (6).\<close>

definition write_back_body ::
  "config \<Rightarrow> 'd bus \<Rightarrow> int \<Rightarrow> byte list \<Rightarrow> nat \<Rightarrow> nat \<Rightarrow> 16 word \<Rightarrow> 16 word \<Rightarrow>
   'd driver \<Rightarrow> (int \<times> 'd driver) + (nat \<times> 'd driver)" where
  "write_back_body cfg bus fd local_file_buffer counter iteration the_cart the_frame st =
     (let cart_buffer = replicate (CART_FRAME_SIZE cfg) 0;
          n = (if counter \<le> CART_FRAME_SIZE cfg then counter else CART_FRAME_SIZE cfg);
          cart_buffer1 = memcpy cart_buffer 0
                           (take n (drop (iteration * CART_FRAME_SIZE cfg) local_file_buffer));
          counter1 = counter - n;
          d1 = snd (load_this_cart bus the_cart (device st))
      in case bus (create_cart_opcode CART_OP_WRFRME 0 0 0 (ucast the_frame) 0) cart_buffer1 d1 of
           (resp, cart_buffer2, d2) \<Rightarrow>
             if extract_cart_opcode resp CART_REG_RT1 \<noteq> 0 then Inl (-1, st\<lparr>device := d2\<rparr>)
             else
               (case put_cart_cache cfg (cache_state st) the_cart the_frame cart_buffer2 of
                  (cacheResp, c) \<Rightarrow>
                    (let st2 = st\<lparr>cache_state := c, device := d2\<rparr>;
                         f = fileSystem st ! nat fd;
                         used = \<lparr> tbl_filehandle = fd, isused = YES \<rparr>
                     in if cacheResp \<noteq> 0 then Inl (-1, st2)
                        else if iteration = 0 then
                          Inr (counter1,
                               st2\<lparr>fileSystem := (fileSystem st)[nat fd :=
                                      f\<lparr>cartIndex := the_cart, frameIndex := the_frame\<rparr>],
                                    fileTable := set_slot (fileTable st) the_cart the_frame used\<rparr>)
                        else if the_cart = 0 \<and> the_frame = 0 then Inl (-1, st2)
                        else if unat the_cart = CART_MAX_CARTRIDGES cfg
                                \<or> unat the_frame = CART_CARTRIDGE_SIZE cfg then Inl (-1, st2)
                        else
                          Inr (counter1,
                               st2\<lparr>fileTable := set_slot (fileTable st) the_cart the_frame used\<rparr>))))"

lemma write_back_body_decreases:
  "write_back_body cfg bus fd lfb counter iteration the_cart the_frame st = Inr (counter', st')
     \<Longrightarrow> 0 < counter \<Longrightarrow> 0 < CART_FRAME_SIZE cfg \<Longrightarrow> counter' < counter"
  by (auto simp: write_back_body_def Let_def split: prod.splits if_splits)

function cart_write_back ::
  "config \<Rightarrow> 'd bus \<Rightarrow> int \<Rightarrow> byte list \<Rightarrow> nat \<Rightarrow> nat \<Rightarrow> 16 word \<times> 16 word \<Rightarrow>
   'd driver \<Rightarrow> int option \<times> 'd driver" where
  "cart_write_back cfg bus fd local_file_buffer counter iteration cur st =
     (case search_file_table cfg (fileTable st) cur of
        (the_cart, the_frame) \<Rightarrow>
          if 0 < counter \<and> 0 < CART_FRAME_SIZE cfg then
            (case write_back_body cfg bus fd local_file_buffer counter iteration the_cart the_frame st of
               Inl r \<Rightarrow> (Some (fst r), snd r)
             | Inr (counter', st') \<Rightarrow>
                 cart_write_back cfg bus fd local_file_buffer counter' (iteration + 1)
                   (the_cart, the_frame) st')
          else (None, st))"
  by pat_completeness auto
termination
  apply (relation "measure (\<lambda>(cfg, bus, fd, lfb, counter, iteration, cur, st). counter)")
   apply simp
  apply (auto elim: write_back_body_decreases)
  done

declare cart_write_back.simps [simp del]

text \<open>The branch of \<open>cart_write\<close> for a file that is already in the device.\<close>

definition subsequent_write ::
  "config \<Rightarrow> 'd bus \<Rightarrow> 'd driver \<Rightarrow> int \<Rightarrow> byte list \<Rightarrow> int \<Rightarrow> int \<times> 'd driver" where
  "subsequent_write cfg bus st fd buf count =
     (let f = fileSystem st ! nat fd;
          buf_size = strlen buf;
          local_file_buffer = replicate (buf_size + unat (filelength f)) 0;
          cart_buffer = replicate (CART_FRAME_SIZE cfg) 0;
          counter = unat (filelength f);
          checkSpace = check_table_space cfg st fd count
      in if checkSpace \<noteq> 0 then (-1, st)
         else
           (case get_file_pieces cfg st fd of
              None \<Rightarrow> (-1, st)
            | Some tempFile \<Rightarrow>
                (let the_cart = fst (piece tempFile 0);
                     d1 = snd (load_this_cart bus the_cart (device st));
                     the_frame = snd (piece tempFile 0)
                 in case read_back_loop cfg bus tempFile counter 0 cart_buffer (the_cart, the_frame)
                           local_file_buffer (st\<lparr>device := d1\<rparr>) of
                      Inl r \<Rightarrow> r
                    | Inr (cart_buffer1, cur, lfb1, st1) \<Rightarrow>
                        (let lfb2 = memcpy lfb1 (unat (fileposition f)) (take (nat count) buf);
                             new_length = (of_nat (strlen lfb2) :: 32 word);
                             new_position =
                               (if filelength f < fileposition f + of_nat buf_size then new_length
                                else fileposition f + word_of_int count);
                             st2 = st1\<lparr>fileSystem := (fileSystem st1)[nat fd :=
                                         (fileSystem st1 ! nat fd)\<lparr>filelength := new_length,
                                            fileposition := new_position\<rparr>]\<rparr>
                         in case cart_write_back cfg bus fd lfb2 (unat new_length) 0 cur st2 of
                              (Some r, st3) \<Rightarrow> (r, st3)
                            | (None, st3) \<Rightarrow> (count, st3)))))"

definition cart_write ::
  "config \<Rightarrow> 'd bus \<Rightarrow> 'd driver \<Rightarrow> int \<Rightarrow> byte list \<Rightarrow> int \<Rightarrow> (int \<times> 'd driver) option" where
  "cart_write cfg bus st fd buf count =
     (if \<not> in_range st fd then None
      else Some
        (let f = fileSystem st ! nat fd in
         if count < 0 then (-1, st)
         else if filehandle f < 0 \<or> openfile f = NO then (-1, st)
         else if \<not> (0 < length (fileSystem st) \<and> filehandle f = fd) then (-1, st)
         else if incart f = NO then
           (case first_write_loop cfg bus fd buf count (nat count) 0
                   (replicate (CART_FRAME_SIZE cfg) 0) (cartIndex f, frameIndex f) st of
              (Some r, st') \<Rightarrow> (r, st')
            | (None, st') \<Rightarrow> (count, st'))
         else subsequent_write cfg bus st fd buf count))"

subsection \<open>An ideal device\<close>

text \<open>
  Modelled from the spec: the CART device behind the transport, which is not part of the
  repository. It keeps the loaded cartridge and the frames, answers every request with the
  request register (return flag 0), stores on WRITE-FRAME and hands the frame back on
  READ-FRAME.
\<close>

record cart_device =
  loaded :: nat
  frames :: "nat \<Rightarrow> nat \<Rightarrow> byte list"

definition ideal_bus :: "cart_device bus" where
  "ideal_bus reg buf d =
     (let op = extract_cart_opcode reg CART_REG_KY1;
          ct = unat (extract_cart_opcode reg CART_REG_CT1);
          fm = unat (extract_cart_opcode reg CART_REG_FM1)
      in if op = CART_OP_LDCART then (reg, buf, d\<lparr>loaded := ct\<rparr>)
         else if op = CART_OP_BZERO then
           (reg, buf, d\<lparr>frames := (frames d)(loaded d := (\<lambda>j. replicate (length (frames d (loaded d) j)) 0))\<rparr>)
         else if op = CART_OP_RDFRME then (reg, frames d (loaded d) fm, d)
         else if op = CART_OP_WRFRME then
           (reg, buf, d\<lparr>frames := (frames d)(loaded d := (frames d (loaded d))(fm := buf))\<rparr>)
         else (reg, buf, d))"

text \<open>
  The process before \<open>cart_poweron\<close>: no file table yet, the static allocation table
  zero-filled (handle 0, and \<open>YES\<close>, whose value is 0), the cache size set to \<open>n\<close>.
\<close>

definition power_up :: "config \<Rightarrow> nat \<Rightarrow> cart_device driver" where
  "power_up cfg n =
     \<lparr> fileSystem = [], fileTable = (\<lambda>i j. \<lparr> tbl_filehandle = 0, isused = YES \<rparr>),
       cache_state = snd (set_cart_cache_size power_up_cache n),
       device = \<lparr> loaded = 0, frames = (\<lambda>i j. replicate (CART_FRAME_SIZE cfg) 0) \<rparr> \<rparr>"

section \<open>Transport client (\<^verbatim>\<open>cart_client.c\<close>)\<close>

text \<open>
  The socket layer is the operating system's, not the repository's. Its model is an ideal
  stream: \<open>socket\<close> hands out the descriptor \<open>next_socket\<close>, \<open>connect\<close> succeeds when the
  server is up, \<open>write\<close> on the connected descriptor appends to \<open>sent\<close> and returns the
  number of bytes, \<open>read\<close> takes up to the number of bytes asked from \<open>inbox\<close>, and every
  call on a descriptor that is negative or not connected returns -1.
\<close>

record net =
  next_socket :: int
  connected :: "int option"
  server_up :: bool
  sent :: "byte list"
  inbox :: "byte list"

definition sys_socket :: "net \<Rightarrow> int \<times> net" where
  "sys_socket n = (next_socket n, n\<lparr>next_socket := next_socket n + 1\<rparr>)"

definition sys_connect :: "int \<Rightarrow> net \<Rightarrow> int \<times> net" where
  "sys_connect fd n = (if 0 \<le> fd \<and> server_up n then (0, n\<lparr>connected := Some fd\<rparr>) else (-1, n))"

definition sys_write :: "int \<Rightarrow> byte list \<Rightarrow> net \<Rightarrow> int \<times> net" where
  "sys_write fd data n =
     (if 0 \<le> fd \<and> connected n = Some fd then (int (length data), n\<lparr>sent := sent n @ data\<rparr>)
      else (-1, n))"

definition sys_read :: "int \<Rightarrow> nat \<Rightarrow> net \<Rightarrow> int \<times> byte list \<times> net" where
  "sys_read fd k n =
     (if 0 \<le> fd \<and> connected n = Some fd
      then (int (length (take k (inbox n))), take k (inbox n), n\<lparr>inbox := drop k (inbox n)\<rparr>)
      else (-1, [], n))"

definition sys_close :: "int \<Rightarrow> net \<Rightarrow> net" where
  "sys_close fd n = (if connected n = Some fd then n\<lparr>connected := None\<rparr> else n)"

text \<open>The two globals of the client that the request function reads.\<close>

record client =
  client_socket :: int
  initialized :: Flag

text \<open>
  \<^verbatim>\<open>value = htonll64(reg); write(socket_fd, &value, sizeof(value))\<close> puts the eight bytes of
  the register on the wire most significant first; \<open>ntohll64\<close> reads them back.
\<close>

definition htonll64 :: "64 word \<Rightarrow> byte list" where
  "htonll64 w = map (\<lambda>i. ucast (drop_bit (8 * i) w)) [7, 6, 5, 4, 3, 2, 1, 0]"

definition ntohll64 :: "byte list \<Rightarrow> 64 word" where
  "ntohll64 bs = foldl (\<lambda>acc b. push_bit 8 acc OR ucast b) 0 bs"

text \<open>
  The block under \<^verbatim>\<open>// CLIENT WRITE\<close> that every case repeats: the register, then the
  length field. \<open>False\<close> is a \<^verbatim>\<open>return(-1)\<close>.
\<close>

definition client_write :: "int \<Rightarrow> 64 word \<Rightarrow> 64 word \<Rightarrow> net \<Rightarrow> bool \<times> net" where
  "client_write socket_fd reg len n =
     (case sys_write socket_fd (htonll64 reg) n of
        (r1, n1) \<Rightarrow>
          if r1 \<noteq> 8 then (False, n1)
          else (case sys_write socket_fd (htonll64 len) n1 of
                  (r2, n2) \<Rightarrow> (r2 = 8, n2)))"

text \<open>
  The block under \<^verbatim>\<open>// CLIENT READ\<close>: the response register, then the length field of
  the reply. \<open>None\<close> is a \<^verbatim>\<open>return(-1)\<close>.
\<close>

definition client_read :: "int \<Rightarrow> net \<Rightarrow> (64 word \<times> 64 word) option \<times> net" where
  "client_read socket_fd n =
     (case sys_read socket_fd 8 n of
        (r1, v1, n1) \<Rightarrow>
          if r1 \<noteq> 8 then (None, n1)
          else (case sys_read socket_fd 8 n1 of
                  (r2, v2, n2) \<Rightarrow>
                    if r2 \<noteq> 8 then (None, n2) else (Some (ntohll64 v1, ntohll64 v2), n2)))"

text \<open>\<^verbatim>\<open>read(socket_fd, buf, CART_FRAME_SIZE) != CART_FRAME_SIZE\<close>, with the buffer afterwards.\<close>

definition read_frame ::
  "config \<Rightarrow> int \<Rightarrow> byte list \<Rightarrow> net \<Rightarrow> bool \<times> byte list \<times> net" where
  "read_frame cfg socket_fd buf n =
     (case sys_read socket_fd (CART_FRAME_SIZE cfg) n of
        (r, v, n1) \<Rightarrow> (r = int (CART_FRAME_SIZE cfg), memcpy buf 0 v, n1))"

text \<open>The exchange of the cases INITMS (after connecting), BZERO and LDCART.\<close>

definition no_payload_case ::
  "int \<Rightarrow> 64 word \<Rightarrow> byte list \<Rightarrow> net \<Rightarrow> 64 word \<times> byte list \<times> net" where
  "no_payload_case socket_fd reg buf n =
     (case client_write socket_fd reg 0 n of
        (False, n1) \<Rightarrow> (-1, buf, n1)
      | (True, n1) \<Rightarrow>
          (case client_read socket_fd n1 of
             (None, n2) \<Rightarrow> (-1, buf, n2)
           | (Some (response, v), n2) \<Rightarrow>
               if v \<noteq> 0 then (-1, buf, n2) else (response, buf, n2)))"

text \<open>The exchange of the cases RDFRME, POWOFF and \<^verbatim>\<open>default\<close>.\<close>

definition frame_reply_case ::
  "config \<Rightarrow> int \<Rightarrow> 64 word \<Rightarrow> byte list \<Rightarrow> net \<Rightarrow> 64 word \<times> byte list \<times> net" where
  "frame_reply_case cfg socket_fd reg buf n =
     (case client_write socket_fd reg 0 n of
        (False, n1) \<Rightarrow> (-1, buf, n1)
      | (True, n1) \<Rightarrow>
          (case client_read socket_fd n1 of
             (None, n2) \<Rightarrow> (-1, buf, n2)
           | (Some (response, v), n2) \<Rightarrow>
               if v > 0 then
                 (case read_frame cfg socket_fd buf n2 of
                    (False, buf1, n3) \<Rightarrow> (-1, buf1, n3)
                  | (True, buf1, n3) \<Rightarrow> (response, buf1, n3))
               else (response, buf, n2)))"

text \<open>
  The case WRFRME. After the length field the source calls
  \<^verbatim>\<open>read(socket_fd, buf, CART_FRAME_SIZE)\<close> under the comment "Send buffered data over
  network".
\<close>

definition wrfrme_case ::
  "config \<Rightarrow> int \<Rightarrow> 64 word \<Rightarrow> byte list \<Rightarrow> net \<Rightarrow> 64 word \<times> byte list \<times> net" where
  "wrfrme_case cfg socket_fd reg buf n =
     (case client_write socket_fd reg (of_nat (CART_FRAME_SIZE cfg)) n of
        (False, n1) \<Rightarrow> (-1, buf, n1)
      | (True, n1) \<Rightarrow>
          (case read_frame cfg socket_fd buf n1 of
             (False, buf1, n2) \<Rightarrow> (-1, buf1, n2)
           | (True, buf1, n2) \<Rightarrow>
               (case client_read socket_fd n2 of
                  (None, n3) \<Rightarrow> (-1, buf1, n3)
                | (Some (response, v), n3) \<Rightarrow>
                    if v > 0 then
                      (case read_frame cfg socket_fd buf1 n3 of
                         (False, buf2, n4) \<Rightarrow> (-1, buf2, n4)
                       | (True, buf2, n4) \<Rightarrow> (response, buf2, n4))
                    else (response, buf1, n3))))"

text \<open>
  \<^verbatim>\<open>socket_fd\<close> is initialised from the global \<^verbatim>\<open>client_socket\<close>, which no statement
  assigns; only the INITMS case gives the local a descriptor, while \<^verbatim>\<open>initialized\<close> is
  still \<open>NO\<close>. Failure is the register \<open>-1\<close>.
\<close>

definition client_cart_bus_request ::
  "config \<Rightarrow> CartXferRegister \<Rightarrow> byte list \<Rightarrow> client \<times> net \<Rightarrow>
   CartXferRegister \<times> byte list \<times> client \<times> net" where
  "client_cart_bus_request cfg reg buf s =
     (let cl = fst s; n = snd s;
          socket_fd = client_socket cl;
          request = (ucast (extract_cart_opcode reg CART_REG_KY1) :: 8 word)
      in if socket_fd \<noteq> -1 then (-1, buf, cl, n)
         else if request = ucast CART_OP_INITMS then
           (if initialized cl = NO then
              (case sys_socket n of
                 (fd, n1) \<Rightarrow>
                   if fd = -1 then (-1, buf, cl, n1)
                   else (case sys_connect fd n1 of
                           (r, n2) \<Rightarrow>
                             if r = -1 then (-1, buf, cl, n2)
                             else (case no_payload_case fd reg buf n2 of
                                     (resp, buf1, n3) \<Rightarrow> (resp, buf1, cl\<lparr>initialized := YES\<rparr>, n3))))
            else (case no_payload_case socket_fd reg buf n of
                    (resp, buf1, n1) \<Rightarrow> (resp, buf1, cl, n1)))
         else if request = ucast CART_OP_BZERO \<or> request = ucast CART_OP_LDCART then
           (case no_payload_case socket_fd reg buf n of (resp, buf1, n1) \<Rightarrow> (resp, buf1, cl, n1))
         else if request = ucast CART_OP_RDFRME then
           (case frame_reply_case cfg socket_fd reg buf n of (resp, buf1, n1) \<Rightarrow> (resp, buf1, cl, n1))
         else if request = ucast CART_OP_WRFRME then
           (case wrfrme_case cfg socket_fd reg buf n of (resp, buf1, n1) \<Rightarrow> (resp, buf1, cl, n1))
         else if request = ucast CART_OP_POWOFF then
           (case frame_reply_case cfg socket_fd reg buf n of
              (resp, buf1, n1) \<Rightarrow>
                if resp = -1 then (resp, buf1, cl, n1) else (resp, buf1, cl, sys_close socket_fd n1))
         else
           (case frame_reply_case cfg socket_fd reg buf n of (resp, buf1, n1) \<Rightarrow> (resp, buf1, cl, n1)))"

section \<open>Concrete systems used to run the code\<close>

text \<open>A one-slot allocation table, to reach a full table in one write.\<close>

definition tiny_cfg :: config where
  "tiny_cfg = \<lparr> CART_MAX_CARTRIDGES = 1, CART_CARTRIDGE_SIZE = 1, CART_FRAME_SIZE = 4 \<rparr>"

text \<open>After \<open>cart_poweron\<close> on the ideal device, with a cache of two frames.\<close>

definition fresh_system :: "config \<Rightarrow> cart_device driver" where
  "fresh_system cfg = snd (cart_poweron cfg ideal_bus (power_up cfg 2))"

text \<open>After \<^verbatim>\<open>cart_open("f")\<close> on the fresh system: handle 0, never written.\<close>

definition opened :: "config \<Rightarrow> cart_device driver" where
  "opened cfg = snd (cart_open (fresh_system cfg) (Some ''f''))"

text \<open>After \<^verbatim>\<open>cart_write(0, bs, length bs)\<close> on the opened file.\<close>

definition written :: "config \<Rightarrow> byte list \<Rightarrow> cart_device driver" where
  "written cfg bs =
     (case cart_write cfg ideal_bus (opened cfg) 0 bs (int (length bs)) of
        Some (r, st) \<Rightarrow> st | None \<Rightarrow> opened cfg)"

text \<open>After \<^verbatim>\<open>cart_seek(0, 0)\<close> on the written file.\<close>

definition rewound :: "config \<Rightarrow> byte list \<Rightarrow> cart_device driver" where
  "rewound cfg bs =
     (case cart_seek (written cfg bs) 0 0 of Some (r, st) \<Rightarrow> st | None \<Rightarrow> written cfg bs)"

text \<open>
  \<^verbatim>\<open>cart_open("a")\<close>, \<^verbatim>\<open>cart_open("b")\<close>, \<^verbatim>\<open>cart_close(0)\<close> on the fresh system: slot 0 is
  closed, slot 1 holds the open file "b".
\<close>

definition b_above_closed_slot :: "cart_device driver" where
  "b_above_closed_slot =
     (let sa = snd (cart_open (fresh_system small_cfg) (Some ''a''));
          sb = snd (cart_open sa (Some ''b''))
      in case cart_close sb 0 of Some (r, st) \<Rightarrow> st | None \<Rightarrow> sb)"

text \<open>
  The scenario of the specification on a cache of capacity 2:
  put(0,0,A); put(0,1,B); get(0,0); put(0,2,C).
\<close>

definition lru_scenario :: cache where
  "lru_scenario =
     (let c1 = snd (put_cart_cache small_cfg (fresh_cache small_cfg 2) 0 0 [0x41]);
          c2 = snd (put_cart_cache small_cfg c1 0 1 [0x42]);
          c3 = snd (get_cart_cache c2 0 0)
      in snd (put_cart_cache small_cfg c3 0 2 [0x43]))"

text \<open>The same cache when one address is put twice: put(0,0,A); put(0,0,B); get(0,0).\<close>

definition dup_before :: cache where
  "dup_before =
     (let c1 = snd (put_cart_cache small_cfg (fresh_cache small_cfg 2) 0 0 [0x41]);
          c2 = snd (put_cart_cache small_cfg c1 0 0 [0x42])
      in snd (get_cart_cache c2 0 0))"

text \<open>... followed by put(0,1,C), which finds no free slot.\<close>

definition dup_after :: cache where
  "dup_after = snd (put_cart_cache small_cfg dup_before 0 1 [0x43])"

text \<open>A connection on descriptor 3 with 32 bytes waiting to be read.\<close>

definition wire :: net where
  "wire = \<lparr> next_socket = 4, connected = Some 3, server_up = True, sent = [],
            inbox = replicate 32 0 \<rparr>"

text \<open>
  The table sizes of the comment in \<^verbatim>\<open>cart_driver.c\<close> (64 cartridges of 1024 frames), with
  frames of 1024 bytes.
\<close>

definition real_cfg :: config where
  "real_cfg = \<lparr> CART_MAX_CARTRIDGES = 64, CART_CARTRIDGE_SIZE = 1024, CART_FRAME_SIZE = 1024 \<rparr>"

text \<open>
  With these sizes, the state that power-on followed by \<^verbatim>\<open>cart_open("f")\<close> leaves: one file
  entry, open and never written, no allocation-table slot in use, an initialised cache of
  two frames, a zeroed device.
\<close>

definition just_opened :: "cart_device driver" where
  "just_opened =
     \<lparr> fileSystem = [closed_file\<lparr>filename := ''f'', filehandle := 0, openfile := YES\<rparr>],
       fileTable = (\<lambda>i j. unused_slot),
       cache_state = fresh_cache real_cfg 2,
       device = \<lparr> loaded = 0, frames = (\<lambda>i j. replicate 1024 0) \<rparr> \<rparr>"

section \<open>Codec: round trip\<close>

lemma lt_take_bit: "(w :: 64 word) < 2 ^ k \<Longrightarrow> take_bit k w = w"
  by (simp add: less_mask_eq take_bit_eq_mask)

lemma mask_consts:
  "(0xFF :: 64 word) = mask 8" "(1 :: 64 word) = mask 1" "(0xFFFF :: 64 word) = mask 16"
  by (simp_all add: mask_eq_exp_minus_1)

lemma extract_create_take_bit:
  fixes a b c d e f :: "64 word"
  defines "r \<equiv> create_cart_opcode (take_bit 8 a) (take_bit 8 b) (take_bit 1 c)
                  (take_bit 16 d) (take_bit 16 e) (take_bit 15 f)"
  shows "extract_cart_opcode r CART_REG_KY1 = take_bit 8 a"
    and "extract_cart_opcode r CART_REG_KY2 = take_bit 8 b"
    and "extract_cart_opcode r CART_REG_RT1 = take_bit 1 c"
    and "extract_cart_opcode r CART_REG_CT1 = take_bit 16 d"
    and "extract_cart_opcode r CART_REG_FM1 = take_bit 16 e"
  unfolding r_def create_cart_opcode_def Let_def extract_cart_opcode.simps mask_consts
  by (rule bit_word_eqI; auto simp: bit_simps)+

text \<open>
  C3 (amended). For every field tuple within the field widths, extracting command,
  secondaryKey, returnFlag, cartridge or frame from the encoded register returns the value
  that was encoded. The reserved field has no selector: the one remaining selector,
  \<open>CART_REG_MAXVAL\<close>, returns the whole register.
\<close>

theorem codec_round_trip:
  assumes "k1 < 2 ^ 8" "k2 < 2 ^ 8" "rt < 2 ^ 1" "ct < 2 ^ 16" "fm < 2 ^ 16" "rs < 2 ^ 15"
  shows "extract_cart_opcode (create_cart_opcode k1 k2 rt ct fm rs) CART_REG_KY1 = k1
       \<and> extract_cart_opcode (create_cart_opcode k1 k2 rt ct fm rs) CART_REG_KY2 = k2
       \<and> extract_cart_opcode (create_cart_opcode k1 k2 rt ct fm rs) CART_REG_RT1 = rt
       \<and> extract_cart_opcode (create_cart_opcode k1 k2 rt ct fm rs) CART_REG_CT1 = ct
       \<and> extract_cart_opcode (create_cart_opcode k1 k2 rt ct fm rs) CART_REG_FM1 = fm
       \<and> extract_cart_opcode (create_cart_opcode k1 k2 rt ct fm rs) CART_REG_MAXVAL
           = create_cart_opcode k1 k2 rt ct fm rs"
  using extract_create_take_bit [of k1 k2 rt ct fm rs] assms [THEN lt_take_bit]
  by simp

text \<open>The round trip at the tuple (4, 9, 1, 3, 7, 5).\<close>

theorem codec_round_trip_witness:
  "extract_cart_opcode (create_cart_opcode 4 9 1 3 7 5) CART_REG_KY1 = 4
 \<and> extract_cart_opcode (create_cart_opcode 4 9 1 3 7 5) CART_REG_KY2 = 9
 \<and> extract_cart_opcode (create_cart_opcode 4 9 1 3 7 5) CART_REG_RT1 = 1
 \<and> extract_cart_opcode (create_cart_opcode 4 9 1 3 7 5) CART_REG_CT1 = 3
 \<and> extract_cart_opcode (create_cart_opcode 4 9 1 3 7 5) CART_REG_FM1 = 7
 \<and> extract_cart_opcode (create_cart_opcode 4 9 1 3 7 5) CART_REG_MAXVAL
      = create_cart_opcode 4 9 1 3 7 5"
  using codec_round_trip [of 4 9 1 3 7 5] by simp

text \<open>
  C3 as stated fails for the reserved field: for the tuple (1, 0, 0, 0, 0, 5) no selector
  returns the reserved value 5.
\<close>

theorem codec_reserved_counterexample:
  "extract_cart_opcode (create_cart_opcode 1 0 0 0 0 5) CART_REG_KY1 \<noteq> 5
 \<and> extract_cart_opcode (create_cart_opcode 1 0 0 0 0 5) CART_REG_KY2 \<noteq> 5
 \<and> extract_cart_opcode (create_cart_opcode 1 0 0 0 0 5) CART_REG_RT1 \<noteq> 5
 \<and> extract_cart_opcode (create_cart_opcode 1 0 0 0 0 5) CART_REG_CT1 \<noteq> 5
 \<and> extract_cart_opcode (create_cart_opcode 1 0 0 0 0 5) CART_REG_FM1 \<noteq> 5
 \<and> extract_cart_opcode (create_cart_opcode 1 0 0 0 0 5) CART_REG_MAXVAL \<noteq> 5"
  by (simp add: create_cart_opcode_def)

section \<open>Cache: eviction and lookup\<close>

text \<open>The scenario of the specification holds: A stays at (0,0), C replaces B.\<close>

lemma lru_scenario_holds:
  "map (\<lambda>e. (cache_cartIndex e, cache_frameIndex e, isUsed e, cachedFrame e)) (entries lru_scenario)
     = [(0, 0, YES, [0x41, 0, 0, 0]), (0, 2, YES, [0x43, 0, 0, 0])]"
  by code_simp

text \<open>
  C4. With no free slot, \<open>put_cart_cache\<close> picks the slot with the smallest \<open>lru\<close> but
  deletes by that slot's address, and \<open>delete_cart_cache\<close> wipes the first slot carrying
  the address. After put(0,0,A); put(0,0,B); get(0,0) the smallest counter is in slot 1
  (\<open>lru = 2\<close>), and put(0,1,C) evicts slot 0 (\<open>lru = 3\<close>) instead: slot 1 survives.
\<close>

theorem put_evicts_non_lru_duplicate:
  "map (\<lambda>e. (isUsed e, lru e, cachedFrame e)) (entries dup_before)
     = [(YES, 3, [0x41, 0, 0, 0]), (YES, 2, [0x42, 0, 0, 0])]
 \<and> map (\<lambda>e. (cache_cartIndex e, cache_frameIndex e, isUsed e, lru e, cachedFrame e))
       (entries dup_after)
     = [(0, 1, YES, 5, [0x43, 0, 0, 0]), (0, 0, YES, 2, [0x42, 0, 0, 0])]"
  by code_simp

text \<open>
  C8. On a freshly initialised cache nothing has been put, yet \<open>get_cart_cache\<close> for
  address (0,0) returns a frame: the tag of (0,0) is 0, the handle of every wiped slot is 0,
  and the lookup does not test \<open>isUsed\<close>.
\<close>

theorem get_hits_unused_slot:
  "map isUsed (entries (fresh_cache small_cfg 2)) = [NO, NO]
 \<and> fst (get_cart_cache (fresh_cache small_cfg 2) 0 0) = Some [0, 0, 0, 0]"
  by code_simp

section \<open>The concrete systems, evaluated\<close>

text \<open>The file tables of the systems above, as the code computes them.\<close>

lemma fresh_files:
  "fileSystem (fresh_system small_cfg) = [closed_file]"
  by code_simp


lemma written_tiny_files:
  "fileSystem (written tiny_cfg [0x41])
     = [\<lparr> filename = ''f'', filehandle = 0, fileposition = 1, filelength = 1,
          cartIndex = 0, frameIndex = 0, openfile = YES, incart = YES \<rparr>]"
  by code_simp

lemma written_tiny_full: "free_slots tiny_cfg (fileTable (written tiny_cfg [0x41])) = 0"
  by code_simp

lemma rewound_tiny:
  "rewound tiny_cfg [0x41]
     = (written tiny_cfg [0x41])\<lparr>fileSystem :=
         [\<lparr> filename = ''f'', filehandle = 0, fileposition = 0, filelength = 1,
            cartIndex = 0, frameIndex = 0, openfile = YES, incart = YES \<rparr>]\<rparr>"
  by (simp add: rewound_def cart_seek_def in_range_def written_tiny_files)

lemma closed_below_b_files:
  "fileSystem b_above_closed_slot
     = [closed_file,
        \<lparr> filename = ''b'', filehandle = 1, fileposition = 0, filelength = 0,
          cartIndex = 0, frameIndex = 0, openfile = YES, incart = NO \<rparr>]"
  by code_simp

section \<open>File store: close, seek, open\<close>

text \<open>
  C10. For a handle inside the file table: when its entry is not open (negative stored
  handle, or the open flag not set) \<open>cart_close\<close> returns -1 and the whole state is as
  before; in every case the state afterwards differs from the state before at most in the
  file-table entry of that handle, so no other entry and no allocation-table slot changes.
\<close>

theorem cart_close_only_open_entry:
  assumes "in_range st fd"
  shows "((filehandle (fileSystem st ! nat fd) < 0 \<or> openfile (fileSystem st ! nat fd) = NO)
            \<longrightarrow> cart_close st fd = Some (-1, st))
       \<and> (\<exists>r g. cart_close st fd = Some (r, st\<lparr>fileSystem := (fileSystem st)[nat fd := g]\<rparr>))"
proof -
  have same: "st\<lparr>fileSystem := (fileSystem st)[nat fd := fileSystem st ! nat fd]\<rparr> = st"
    by simp
  show ?thesis
  proof (cases "filehandle (fileSystem st ! nat fd) \<ge> 0 \<and> openfile (fileSystem st ! nat fd) = YES")
    case True
    then show ?thesis using assms by (auto simp: cart_close_def Let_def)
  next
    case False
    then have "cart_close st fd = Some (-1, st)"
      using assms by (simp add: cart_close_def Let_def)
    then show ?thesis using same by metis
  qed
qed

text \<open>On the fresh system handle 0 is closed: closing it returns -1 and changes nothing.\<close>

theorem cart_close_only_open_entry_witness:
  "in_range (fresh_system small_cfg) 0
 \<and> openfile (fileSystem (fresh_system small_cfg) ! nat 0) = NO
 \<and> cart_close (fresh_system small_cfg) 0 = Some (-1, fresh_system small_cfg)"
proof -
  have h: "in_range (fresh_system small_cfg) 0"
    by (simp add: in_range_def fresh_files)
  have c: "openfile (fileSystem (fresh_system small_cfg) ! nat 0) = NO"
    by (simp add: fresh_files closed_file_def)
  from cart_close_only_open_entry [OF h] c h show ?thesis
    by blast
qed

text \<open>
  What \<open>cart_seek\<close> does for a handle inside the file table, open or not: it succeeds
  exactly when the offset is at most the length, then sets the position and nothing else.
\<close>

lemma cart_seek_bounds_only:
  assumes "in_range st fd"
  shows "\<exists>r st'. cart_seek st fd loc = Some (r, st')
       \<and> (r = 0 \<or> r = -1)
       \<and> (r = 0 \<longleftrightarrow> loc \<le> filelength (fileSystem st ! nat fd))
       \<and> (r = 0 \<longrightarrow> st' = st\<lparr>fileSystem := (fileSystem st)[nat fd :=
                               (fileSystem st ! nat fd)\<lparr>fileposition := loc\<rparr>]\<rparr>)
       \<and> (r = -1 \<longrightarrow> st' = st)
       \<and> fileTable st' = fileTable st \<and> cache_state st' = cache_state st \<and> device st' = device st"
  using assms by (auto simp: cart_seek_def Let_def not_less)

text \<open>
  C9. \<open>cart_seek\<close> never looks at the open flag. On the fresh system handle 0 is closed
  (stored handle -1, length 0), and \<^verbatim>\<open>cart_seek(0, 0)\<close> returns 0.
\<close>

theorem cart_seek_closed_entry_succeeds:
  "openfile (fileSystem (fresh_system small_cfg) ! 0) = NO
 \<and> filehandle (fileSystem (fresh_system small_cfg) ! 0) = -1
 \<and> map_option fst (cart_seek (fresh_system small_cfg) 0 0) = Some 0"
  by (simp add: cart_seek_def in_range_def fresh_files closed_file_def)

text \<open>
  C6. \<open>cart_open\<close> compares the path and tests for a free slot in one pass, slot by slot.
  With slot 0 closed and the open file "b" in slot 1, \<^verbatim>\<open>cart_open("b")\<close> claims slot 0
  before it reaches slot 1: it returns 0 and the table holds two open files named "b".
\<close>

theorem cart_open_duplicate_above_closed_slot:
  "map (\<lambda>f. (filename f, openfile f)) (fileSystem b_above_closed_slot)
     = [([], NO), (''b'', YES)]
 \<and> fst (cart_open b_above_closed_slot (Some ''b'')) = 0
 \<and> map (\<lambda>f. (filename f, openfile f)) (fileSystem (snd (cart_open b_above_closed_slot (Some ''b''))))
     = [(''b'', YES), (''b'', YES)]"
proof -
  have s: "open_scan ''b'' b_above_closed_slot
             = Some (0, b_above_closed_slot\<lparr>fileSystem :=
                 [closed_file\<lparr>filename := ''b'', filehandle := 0, openfile := YES\<rparr>,
                  \<lparr> filename = ''b'', filehandle = 1, fileposition = 0, filelength = 0,
                    cartIndex = 0, frameIndex = 0, openfile = YES, incart = NO \<rparr>]\<rparr>)"
    by (simp add: open_scan_def closed_below_b_files closed_file_def)
  have o: "cart_open b_above_closed_slot (Some ''b'')
             = (0, b_above_closed_slot\<lparr>fileSystem :=
                 [closed_file\<lparr>filename := ''b'', filehandle := 0, openfile := YES\<rparr>,
                  \<lparr> filename = ''b'', filehandle = 1, fileposition = 0, filelength = 0,
                    cartIndex = 0, frameIndex = 0, openfile = YES, incart = NO \<rparr>]\<rparr>)"
    unfolding cart_open_def by (subst open_loop.simps) (simp add: s)
  show ?thesis
    unfolding o by (simp add: closed_below_b_files closed_file_def)
qed

section \<open>File store: read at the end of the file\<close>








section \<open>File store: the capacity check of a subsequent write\<close>

lemma unat_add_count:
  fixes a :: "32 word"
  assumes "0 \<le> count" "unat a + nat count < 2 ^ 32"
  shows "unat (a + word_of_int count) = unat a + nat count"
proof -
  have c: "(word_of_int count :: 32 word) = of_nat (nat count)"
    using assms(1) by (rule word_of_int_nat)
  have "nat count < 2 ^ 32" using assms(2) by simp
  then have u: "unat (of_nat (nat count) :: 32 word) = nat count"
    by (simp add: unat_of_nat)
  have "unat a + unat (of_nat (nat count) :: 32 word) < 2 ^ LENGTH(32)"
    using assms(2) u by simp
  then have "unat (a + of_nat (nat count)) = unat a + unat (of_nat (nat count) :: 32 word)"
    by (rule unat_add_lem [THEN iffD1])
  then show ?thesis unfolding c u .
qed

lemma check_table_space_fails:
  assumes "0 \<le> count"
    and "unat (fileposition (fileSystem st ! nat fd)) + nat count < 2 ^ 32"
    and "unat (filelength (fileSystem st ! nat fd)) + nat count < 2 ^ 32"
    and "unat (filelength (fileSystem st ! nat fd))
           < unat (fileposition (fileSystem st ! nat fd)) + nat count"
    and "free_slots cfg (fileTable st)
           < ceil_div (unat (filelength (fileSystem st ! nat fd)) + nat count) (CART_FRAME_SIZE cfg)"
  shows "check_table_space cfg st fd count = -1"
proof -
  let ?f = "fileSystem st ! nat fd"
  have p: "unat (fileposition ?f + word_of_int count) = unat (fileposition ?f) + nat count"
    using assms(1,2) by (rule unat_add_count)
  have l: "unat (filelength ?f + word_of_int count) = unat (filelength ?f) + nat count"
    using assms(1,3) by (rule unat_add_count)
  have "\<not> fileposition ?f + word_of_int count \<le> filelength ?f"
    using p assms(4) by (simp add: word_le_nat_alt)
  then show ?thesis
    using l assms(5) by (simp add: check_table_space_def Let_def)
qed

text \<open>
  C7 (amended). For an open handle whose file is already in the device, a write that
  reaches past the current length (position + count > length, all sums within 32 bits):
  when the free allocation-table slots are fewer than the frames of length + count bytes,
  \<open>cart_write\<close> returns -1 and the whole state (allocation table, cache, length, position,
  device) is as before.
\<close>

theorem cart_write_capacity_check:
  assumes "in_range st fd"
    and "filehandle (fileSystem st ! nat fd) = fd"
    and "openfile (fileSystem st ! nat fd) = YES"
    and "incart (fileSystem st ! nat fd) = YES"
    and "0 \<le> count"
    and "unat (fileposition (fileSystem st ! nat fd)) + nat count < 2 ^ 32"
    and "unat (filelength (fileSystem st ! nat fd)) + nat count < 2 ^ 32"
    and "unat (filelength (fileSystem st ! nat fd))
           < unat (fileposition (fileSystem st ! nat fd)) + nat count"
    and "free_slots cfg (fileTable st)
           < ceil_div (unat (filelength (fileSystem st ! nat fd)) + nat count) (CART_FRAME_SIZE cfg)"
  shows "cart_write cfg bus st fd buf count = Some (-1, st)"
proof -
  have c: "check_table_space cfg st fd count = -1"
    using assms(5-9) by (rule check_table_space_fails)
  have "0 < length (fileSystem st)" "0 \<le> fd"
    using assms(1) by (auto simp: in_range_def)
  then show ?thesis
    using assms(1-5) c
    by (simp add: cart_write_def subsequent_write_def Let_def)
qed

text \<open>
  With a one-slot table, the file of one byte fills it; writing four more bytes at
  position 1 needs two frames, none is free, and the call changes nothing.
\<close>

theorem cart_write_capacity_check_witness:
  "in_range (written tiny_cfg [0x41]) 0
 \<and> incart (fileSystem (written tiny_cfg [0x41]) ! nat 0) = YES
 \<and> free_slots tiny_cfg (fileTable (written tiny_cfg [0x41])) = 0
 \<and> cart_write tiny_cfg ideal_bus (written tiny_cfg [0x41]) 0 [0x42, 0x43, 0x44, 0x45] 4
      = Some (-1, written tiny_cfg [0x41])"
proof -
  let ?st = "written tiny_cfg [0x41]"
  have h1: "in_range ?st 0"
    by (simp add: in_range_def written_tiny_files)
  have h2: "filehandle (fileSystem ?st ! nat 0) = 0"
    and h3: "openfile (fileSystem ?st ! nat 0) = YES"
    and h4: "incart (fileSystem ?st ! nat 0) = YES"
    and h6: "unat (fileposition (fileSystem ?st ! nat 0)) + nat 4 < 2 ^ 32"
    and h7: "unat (filelength (fileSystem ?st ! nat 0)) + nat 4 < 2 ^ 32"
    and h8: "unat (filelength (fileSystem ?st ! nat 0))
               < unat (fileposition (fileSystem ?st ! nat 0)) + nat 4"
    by (simp_all add: written_tiny_files)
  have h5: "(0::int) \<le> 4" by simp
  have fs: "CART_FRAME_SIZE tiny_cfg = 4" by (simp add: tiny_cfg_def)
  have h9: "free_slots tiny_cfg (fileTable ?st)
              < ceil_div (unat (filelength (fileSystem ?st ! nat 0)) + nat 4) (CART_FRAME_SIZE tiny_cfg)"
    by (simp add: written_tiny_files written_tiny_full ceil_div_def fs)
  from cart_write_capacity_check [OF h1 h2 h3 h4 h5 h6 h7 h8 h9] h1 h4 written_tiny_full
  show ?thesis by blast
qed

text \<open>
  C7 as stated fails for a write inside the current length: with the one-slot table full
  (no free slot, the resulting file of one byte needs one frame), position 0 and length 1,
  \<^verbatim>\<open>cart_write(0, "B", 1)\<close> passes the check, rewrites the file and returns 1.
\<close>

theorem cart_write_in_place_counterexample:
  "incart (fileSystem (rewound tiny_cfg [0x41]) ! 0) = YES
 \<and> openfile (fileSystem (rewound tiny_cfg [0x41]) ! 0) = YES
 \<and> filelength (fileSystem (rewound tiny_cfg [0x41]) ! 0) = 1
 \<and> fileposition (fileSystem (rewound tiny_cfg [0x41]) ! 0) = 0
 \<and> free_slots tiny_cfg (fileTable (rewound tiny_cfg [0x41])) = 0
 \<and> ceil_div 1 (CART_FRAME_SIZE tiny_cfg) = 1
 \<and> map_option fst (cart_write tiny_cfg ideal_bus (rewound tiny_cfg [0x41]) 0 [0x42] 1) = Some 1"
proof -
  have w: "map_option fst (cart_write tiny_cfg ideal_bus (rewound tiny_cfg [0x41]) 0 [0x42] 1) = Some 1"
    by code_simp
  have f: "free_slots tiny_cfg (fileTable (rewound tiny_cfg [0x41])) = 0"
    by (simp add: rewound_tiny written_tiny_full)
  have c: "ceil_div 1 (CART_FRAME_SIZE tiny_cfg) = 1"
    by (simp add: ceil_div_def tiny_cfg_def)
  show ?thesis
    using w f c by (simp add: rewound_tiny)
qed

section \<open>File store: write, seek, read\<close>

text \<open>
  Three bytes without NUL, written to the fresh handle and followed by a seek to 0, are read
  back unchanged.
\<close>

lemma one_frame_round_trip:
  "map_option (\<lambda>r. (fst r, fst (snd r)))
      (cart_read small_cfg ideal_bus ([], []) (rewound small_cfg [0x41, 0x42, 0x43]) 0 3)
      = Some (3, [0x41, 0x42, 0x43])"
  by code_simp

text \<open>
  Run from power-on with two cartridges of two frames of four bytes: a first write of five
  bytes to the handle just opened returns -1.
\<close>

lemma first_write_two_frames_small:
  "map_option fst
      (cart_write small_cfg ideal_bus (opened small_cfg) 0 [0x41, 0x42, 0x43, 0x44, 0x45] 5)
      = Some (-1)"
  by code_simp

lemma find_append_first: "List.find P xs = Some x \<Longrightarrow> List.find P (xs @ ys) = Some x"
  by (induction xs) (auto split: if_splits)

lemma find_exists: "x \<in> set xs \<Longrightarrow> P x \<Longrightarrow> \<exists>y. List.find P xs = Some y \<and> y \<in> set xs \<and> P y"
  by (induction xs) auto

lemma slots_cart0:
  assumes "0 < CART_MAX_CARTRIDGES cfg"
  shows "\<exists>rest. slots cfg = map (\<lambda>j. (0, j)) [0..<CART_CARTRIDGE_SIZE cfg] @ rest"
proof -
  have "[0..<CART_MAX_CARTRIDGES cfg] = 0 # [1..<CART_MAX_CARTRIDGES cfg]"
    using assms by (simp add: upt_conv_Cons)
  then show ?thesis by (simp add: slots_def)
qed

lemma search_in_cart0:
  assumes "0 < CART_MAX_CARTRIDGES cfg" "j < CART_CARTRIDGE_SIZE cfg" "isused (tbl 0 j) = NO"
  shows "\<exists>j'. j' < CART_CARTRIDGE_SIZE cfg \<and> isused (tbl 0 j') = NO
            \<and> search_file_table cfg tbl cur = (0, of_nat j')"
proof -
  let ?P = "\<lambda>(i, j). isused (tbl i j) = NO"
  let ?row = "map (\<lambda>j. (0::nat, j)) [0..<CART_CARTRIDGE_SIZE cfg]"
  obtain rest where s: "slots cfg = ?row @ rest"
    using slots_cart0 [OF assms(1)] by blast
  have "(0, j) \<in> set ?row" using assms(2) by auto
  moreover have "?P (0, j)" using assms(3) by simp
  ultimately obtain y where y: "List.find ?P ?row = Some y" "y \<in> set ?row" "?P y"
    using find_exists [of "(0, j)" ?row ?P] by blast
  then obtain j' where j': "y = (0, j')" "j' < CART_CARTRIDGE_SIZE cfg" by auto
  have "List.find ?P (slots cfg) = Some (0, j')"
    unfolding s using y(1) j'(1) by (simp add: find_append_first)
  then have "search_file_table cfg tbl cur = (0, of_nat j')"
    by (simp add: search_file_table_def)
  then show ?thesis using j' y(3) by auto
qed

lemma first_write_body_Inl:
  "first_write_body cfg bus fd buf count counter iteration cart_buffer the_cart the_frame st = Inl r
     \<Longrightarrow> fst r = -1"
  by (auto simp: first_write_body_def Let_def split: prod.splits if_splits)

lemma first_write_body_Inr0:
  "first_write_body cfg bus fd buf count counter 0 cart_buffer the_cart the_frame st
      = Inr (counter', cb', st')
     \<Longrightarrow> counter' = counter - (if counter \<le> CART_FRAME_SIZE cfg then counter else CART_FRAME_SIZE cfg)
       \<and> fileTable st' = set_slot (fileTable st) the_cart the_frame \<lparr> tbl_filehandle = fd, isused = YES \<rparr>"
  by (auto simp: first_write_body_def Let_def split: prod.splits if_splits)

text \<open>
  In the first write every frame after the first is refused when the slot found for it
  lies in cartridge 0 or has frame index 0: the guard reads
  \<^verbatim>\<open>the_cart == 0 || the_frame == 0\<close> (the same guard of the write-back loop has
  \<^verbatim>\<open>&&\<close>).
\<close>

lemma first_write_later_frame_rejected:
  assumes "0 < iteration" "0 < counter" "0 < CART_FRAME_SIZE cfg"
    and "search_file_table cfg (fileTable st) cur = (the_cart, the_frame)"
    and "the_cart = 0 \<or> the_frame = 0"
  shows "fst (first_write_loop cfg bus fd buf count counter iteration cart_buffer cur st) = Some (-1)"
  using assms
  by (subst first_write_loop.simps)
     (auto simp: first_write_body_def Let_def split: prod.splits)

text \<open>
  C1. The write of the sequence fails for every buffer longer than one frame: for an open
  handle that was never written (\<open>incart = NO\<close>), whenever cartridge 0 has two unused
  slots, \<open>cart_write\<close> with a count above \<open>CART_FRAME_SIZE\<close> returns -1, whatever the
  bytes and whatever the transport answers. So the bytes cannot be read back.
\<close>

theorem first_write_beyond_one_frame_fails:
  assumes "in_range st fd"
    and "filehandle (fileSystem st ! nat fd) = fd"
    and "openfile (fileSystem st ! nat fd) = YES"
    and "incart (fileSystem st ! nat fd) = NO"
    and "0 < CART_FRAME_SIZE cfg" and "int (CART_FRAME_SIZE cfg) < count"
    and "0 < CART_MAX_CARTRIDGES cfg" and "CART_CARTRIDGE_SIZE cfg \<le> 2 ^ 16"
    and "j1 < CART_CARTRIDGE_SIZE cfg" and "j2 < CART_CARTRIDGE_SIZE cfg" and "j1 \<noteq> j2"
    and "isused (fileTable st 0 j1) = NO" and "isused (fileTable st 0 j2) = NO"
  shows "\<exists>st'. cart_write cfg bus st fd buf count = Some (-1, st')"
proof -
  let ?f = "fileSystem st ! nat fd"
  let ?FS = "CART_FRAME_SIZE cfg"
  let ?cur = "(cartIndex ?f, frameIndex ?f)"
  let ?cb = "replicate ?FS (0::byte)"
  let ?loop = "first_write_loop cfg bus fd buf count (nat count) 0 ?cb ?cur st"
  have cnt: "0 < nat count" "?FS < nat count" using assms(5,6) by auto
  obtain j' where j': "j' < CART_CARTRIDGE_SIZE cfg" "isused (fileTable st 0 j') = NO"
      "search_file_table cfg (fileTable st) ?cur = (0, of_nat j')"
    using search_in_cart0 [where tbl = "fileTable st" and j = j1 and cur = ?cur, OF assms(7,9,12)]
    by blast
  have uj: "unat (of_nat j' :: 16 word) = j'"
    using j'(1) assms(8) by (simp add: unat_of_nat)
  have loop: "fst ?loop = Some (-1)"
  proof (cases "first_write_body cfg bus fd buf count (nat count) 0 ?cb 0 (of_nat j') st")
    case (Inl r)
    then show ?thesis
      using j'(3) cnt assms(5) first_write_body_Inl [OF Inl]
      by (subst first_write_loop.simps) simp
  next
    case (Inr v)
    obtain c1 cb1 st1 where v: "v = (c1, cb1, st1)" by (cases v) auto
    from first_write_body_Inr0 [OF Inr [unfolded v]]
    have c1: "c1 = nat count - ?FS"
      and t1: "fileTable st1 = set_slot (fileTable st) 0 (of_nat j') \<lparr> tbl_filehandle = fd, isused = YES \<rparr>"
      using cnt by auto
    have c1pos: "0 < c1" using c1 cnt by simp
    obtain k where k: "k < CART_CARTRIDGE_SIZE cfg" "k \<noteq> j'" "isused (fileTable st 0 k) = NO"
      using assms(9-13) by (cases "j' = j1") auto
    have "isused (fileTable st1 0 k) = NO"
      using k t1 uj by (simp add: set_slot_def)
    from search_in_cart0 [where tbl = "fileTable st1" and j = k and cur = "(0, of_nat j')",
                          OF assms(7) k(1) this]
    obtain k' where k': "search_file_table cfg (fileTable st1) (0, of_nat j') = (0, of_nat k')"
      by blast
    have "fst (first_write_loop cfg bus fd buf count c1 (0 + 1) cb1 (0, of_nat j') st1) = Some (-1)"
      by (rule first_write_later_frame_rejected [OF _ c1pos assms(5) k']) simp_all
    then show ?thesis
      using j'(3) cnt assms(5) Inr v
      by (subst first_write_loop.simps) simp
  qed
  obtain r st' where rs: "?loop = (r, st')" by (cases ?loop) auto
  with loop have "r = Some (-1)" by simp
  moreover have "0 < length (fileSystem st)" "0 \<le> fd"
    using assms(1) by (auto simp: in_range_def)
  ultimately have "cart_write cfg bus st fd buf count = Some (-1, st')"
    using assms(1-4) cnt rs
    by (simp add: cart_write_def Let_def)
  then show ?thesis by blast
qed

text \<open>
  With 64 cartridges of 1024 frames of 1024 bytes and the ideal device: the first write of
  1025 bytes to the handle just opened returns -1.
\<close>

theorem first_write_beyond_one_frame_fails_witness:
  "in_range just_opened 0
 \<and> incart (fileSystem just_opened ! nat 0) = NO
 \<and> isused (fileTable just_opened 0 0) = NO \<and> isused (fileTable just_opened 0 1) = NO
 \<and> (\<exists>st'. cart_write real_cfg ideal_bus just_opened 0 (replicate 1025 0x41) 1025
             = Some (-1, st'))"
proof -
  have h1: "in_range just_opened 0"
    by (simp add: in_range_def just_opened_def)
  have h2: "filehandle (fileSystem just_opened ! nat 0) = 0"
    and h3: "openfile (fileSystem just_opened ! nat 0) = YES"
    and h4: "incart (fileSystem just_opened ! nat 0) = NO"
    by (simp_all add: just_opened_def closed_file_def)
  have t: "isused (fileTable just_opened 0 0) = NO" "isused (fileTable just_opened 0 1) = NO"
    by (simp_all add: just_opened_def unused_slot_def)
  from first_write_beyond_one_frame_fails [where cfg = real_cfg and ?j1.0 = 0 and ?j2.0 = 1
      and count = 1025 and bus = ideal_bus and buf = "replicate 1025 0x41",
      OF h1 h2 h3 h4 _ _ _ _ _ _ _ t]
  have "\<exists>st'. cart_write real_cfg ideal_bus just_opened 0 (replicate 1025 0x41) 1025
               = Some (-1, st')"
    by (simp add: real_cfg_def)
  with h1 h4 t show ?thesis by blast
qed

section \<open>Transport client: the WRITE-FRAME exchange\<close>

lemma extract_ky1_frame_request:
  fixes fm :: "16 word"
  assumes "k < 2 ^ 8"
  shows "extract_cart_opcode (create_cart_opcode k 0 0 0 (ucast fm) 0) CART_REG_KY1 = k"
proof -
  have f: "take_bit 16 (ucast fm :: 64 word) = ucast fm"
    by (rule bit_word_eqI) (auto simp: bit_simps dest: bit_imp_le_length)
  show ?thesis
    using extract_create_take_bit(1) [of k 0 0 0 "ucast fm" 0] lt_take_bit [OF assms] f
    by simp
qed

lemma sys_write_closed: "sys_write (-1) data n = (-1, n)"
  by (simp add: sys_write_def)

lemma ucast_op_consts:
  "(ucast CART_OP_INITMS :: 8 word) = 0" "(ucast CART_OP_BZERO :: 8 word) = 1"
  "(ucast CART_OP_LDCART :: 8 word) = 2" "(ucast CART_OP_RDFRME :: 8 word) = 3"
  "(ucast CART_OP_WRFRME :: 8 word) = 4" "(ucast CART_OP_POWOFF :: 8 word) = 5"
  by (simp_all add: CART_OP_INITMS_def CART_OP_BZERO_def CART_OP_LDCART_def CART_OP_RDFRME_def
        CART_OP_WRFRME_def CART_OP_POWOFF_def)

lemma request_wrfrme:
  assumes "extract_cart_opcode reg CART_REG_KY1 = CART_OP_WRFRME"
  shows "client_cart_bus_request cfg reg buf (cl, n) =
           (if client_socket cl \<noteq> -1 then (-1, buf, cl, n)
            else case wrfrme_case cfg (-1) reg buf n of (resp, buf1, n1) \<Rightarrow> (resp, buf1, cl, n1))"
  unfolding client_cart_bus_request_def Let_def assms ucast_op_consts
  by simp

text \<open>
  C2. A WRITE-FRAME request for any frame, in any state of the client and of the
  connection, returns the failure register and puts no byte on the wire: the descriptor
  the case writes to is -1. Run on a connected descriptor, the body of the case sends the
  register and the length field (frame size 4) and nothing after them: the four payload
  bytes are not sent, the next call is a \<open>read\<close>.
\<close>

theorem wrfrme_payload_never_sent:
  "fst (client_cart_bus_request cfg (create_cart_opcode CART_OP_WRFRME 0 0 0 (ucast (fm :: 16 word)) 0)
          buf (cl, n)) = -1
 \<and> sent (snd (snd (snd (client_cart_bus_request cfg
          (create_cart_opcode CART_OP_WRFRME 0 0 0 (ucast fm) 0) buf (cl, n))))) = sent n
 \<and> sent (snd (snd (wrfrme_case small_cfg 3 (create_cart_opcode CART_OP_WRFRME 0 0 0 1 0)
          [0x41, 0x42, 0x43, 0x44] wire)))
      = [4, 0, 0, 0, 0, 0, 0x80, 0] @ [0, 0, 0, 0, 0, 0, 0, 4]"
proof -
  let ?reg = "create_cart_opcode CART_OP_WRFRME 0 0 0 (ucast fm) 0"
  have k: "extract_cart_opcode ?reg CART_REG_KY1 = CART_OP_WRFRME"
    by (rule extract_ky1_frame_request) (simp add: CART_OP_WRFRME_def)
  have w: "wrfrme_case cfg (-1) ?reg buf n = (-1, buf, n)"
    by (simp add: wrfrme_case_def client_write_def sys_write_closed)
  have r: "client_cart_bus_request cfg ?reg buf (cl, n) = (-1, buf, cl, n)"
    unfolding request_wrfrme [OF k] w by simp
  have c: "sent (snd (snd (wrfrme_case small_cfg 3 (create_cart_opcode CART_OP_WRFRME 0 0 0 1 0)
          [0x41, 0x42, 0x43, 0x44] wire)))
      = [4, 0, 0, 0, 0, 0, 0x80, 0] @ [0, 0, 0, 0, 0, 0, 0, 4]"
    by code_simp
  show ?thesis unfolding r using c by simp
qed

end
